theory Spec2Isabelle
  imports Complex_Main
begin

section \<open>Adaptive-learning core: mastery, spaced repetition, prerequisites\<close>

text \<open>
  A shallow embedding of the backend services
  \<^verbatim>\<open>MasteryService\<close>, \<^verbatim>\<open>ErrorPatternService\<close>, \<^verbatim>\<open>PrerequisiteService\<close>,
  \<^verbatim>\<open>ReviewQueueRepo\<close>, \<^verbatim>\<open>CompetenceFrameworkService\<close> and of the curriculum helper
  functions of \<^verbatim>\<open>ce1-competences-2025.ts\<close> and \<^verbatim>\<open>ce2-competences-2026.ts\<close>.

  Conventions of the model:
  \<^item> a JavaScript \<^verbatim>\<open>number\<close> that carries a measurement (quality, percentages, easiness
    factor, weight) is a \<open>real\<close>; counters and identifiers are \<open>int\<close> or \<open>nat\<close>; the
    mean quality, which is compared with the thresholds \<open>3\<close> and \<open>2.5\<close>, is computed with
    the rounding of IEEE 754 doubles;
  \<^item> a \<^verbatim>\<open>Date\<close> is its number of milliseconds since the epoch, an \<open>int\<close>; one call of
    the pipeline reads the clock once (the parameter \<open>now\<close>);
  \<^item> a database table is the list of its rows in insertion order; an \<^verbatim>\<open>insert\<close>
    appends a row whose auto-increment id is larger than every id of the table;
    an \<^verbatim>\<open>update ... where id = k\<close> rewrites every row whose id is \<open>k\<close>;
  \<^item> \<^verbatim>\<open>orderBy\<close> is a stable sort of the selected rows.
\<close>

subsection \<open>Rows of the tables\<close>

type_synonym date = int

datatype mastery_level = not_started | in_progress | mastered

record exercise_outcome =
  oc_id :: nat
  oc_studentId :: int
  oc_exerciseId :: int
  oc_competenceCode :: string
  oc_isCorrect :: bool
  oc_hintsUsed :: int
  oc_timeSpentSec :: int
  oc_quality :: real
  oc_errorTags :: "string list"
  oc_attemptedAt :: date

record error_pattern =
  ep_id :: nat
  ep_studentId :: int
  ep_competenceCode :: string
  ep_tag :: string
  ep_occurrences :: int
  ep_lastSeenAt :: date

record student_progress =
  sp_id :: nat
  sp_studentId :: int
  sp_exerciseId :: int
  sp_competenceCode :: string
  sp_progressPercent :: real
  sp_masteryLevel :: mastery_level
  sp_totalAttempts :: nat
  sp_successfulAttempts :: nat
  sp_averageScore :: real
  sp_totalTimeSpent :: int
  sp_lastAttemptAt :: "date option"
  sp_masteredAt :: "date option"
  sp_needsReview :: bool
  sp_createdAt :: date
  sp_updatedAt :: date

record review_card =
  rc_id :: nat
  rc_studentId :: int
  rc_competenceCode :: string
  rc_easinessFactor :: real
  rc_repetitionNumber :: nat
  rc_intervalDays :: int
  rc_lastReviewAt :: date
  rc_nextReviewAt :: date
  rc_lastQuality :: real
  rc_createdAt :: date
  rc_updatedAt :: date

record competence_prerequisite =
  cp_competenceCode :: string
  cp_prerequisiteCode :: string
  cp_weight :: real
  cp_description :: string

record db =
  exerciseOutcomes :: "exercise_outcome list"
  errorPatterns :: "error_pattern list"
  studentProgress :: "student_progress list"
  spacedRepetitionCards :: "review_card list"
  competencePrerequisites :: "competence_prerequisite list"

text \<open>The auto-increment id of the next row of a table whose rows have the ids \<open>ids\<close>.\<close>

definition next_id :: "nat list \<Rightarrow> nat" where
  "next_id ids = Suc (fold max ids 0)"

text \<open>
  The arithmetic of IEEE 754 doubles, for the computation whose rounding decides a
  comparison (the mean quality): \<open>binary64 x\<close> is the double nearest to the real \<open>x\<close>, a
  tie going to the even significand. A double has \<open>53\<close> significant bits; for
  \<open>2 ^ e \<le> \<bar>x\<bar> < 2 ^ (e + 1)\<close> the doubles around \<open>x\<close> are the multiples of
  \<open>2 ^ (e - 52)\<close>, and below \<open>2 ^ - 1022\<close> the multiples of \<open>2 ^ - 1074\<close>. The sum and the
  quotient of two doubles are the roundings of the exact sum and quotient. An overflow to
  \<^verbatim>\<open>Infinity\<close> (a magnitude of \<open>2 ^ 1024\<close>) is not modelled.
\<close>

definition round_half_even :: "real \<Rightarrow> int" where
  "round_half_even x =
     (let n = \<lfloor>x\<rfloor>; r = x - of_int n
      in if r < 1 / 2 then n else if 1 / 2 < r then n + 1 else if even n then n else n + 1)"

definition pow2 :: "int \<Rightarrow> real" where
  "pow2 k = (if 0 \<le> k then 2 ^ nat k else 1 / 2 ^ nat (- k))"

definition binary64 :: "real \<Rightarrow> real" where
  "binary64 x =
     (if x = 0 then 0
      else (let e = max (- 1022) \<lfloor>log 2 \<bar>x\<bar>\<rfloor>; u = pow2 (e - 52)
            in of_int (round_half_even (x / u)) * u))"

text \<open>\<^verbatim>\<open>Math.round\<close>: the nearest integer, a half rounded up.\<close>

definition Math_round :: "real \<Rightarrow> int" where
  "Math_round x = \<lfloor>x + 1 / 2\<rfloor>"

text \<open>\<^verbatim>\<open>Date.setDate(getDate() + n)\<close> on a server whose time zone has no clock changes.\<close>

definition day_ms :: int where
  "day_ms = 86400000"

definition addDays :: "date \<Rightarrow> int \<Rightarrow> date" where
  "addDays d n = d + n * day_ms"

subsection \<open>The argument of \<^verbatim>\<open>updateMastery\<close> and \<^verbatim>\<open>recordOutcome\<close>\<close>

record attempt =
  studentId :: int
  exerciseId :: int
  competenceCode :: string
  isCorrect :: bool
  hintsUsed :: int
  timeSpentSec :: int
  quality :: real
  errorTags :: "string list"

subsection \<open>\<^verbatim>\<open>ErrorPatternService.recordOutcome\<close>\<close>

definition matchesPattern :: "int \<Rightarrow> string \<Rightarrow> string \<Rightarrow> error_pattern \<Rightarrow> bool" where
  "matchesPattern sid code tag r =
     (ep_studentId r = sid \<and> ep_competenceCode r = code \<and> ep_tag r = tag)"

text \<open>The body of the loop over \<^verbatim>\<open>errorTags\<close>: increment the first matching counter, or
  insert a counter with one occurrence.\<close>

definition upsertErrorPattern ::
  "int \<Rightarrow> string \<Rightarrow> date \<Rightarrow> string \<Rightarrow> error_pattern list \<Rightarrow> error_pattern list" where
  "upsertErrorPattern sid code now tag tbl =
     (case filter (matchesPattern sid code tag) tbl of
        e # _ \<Rightarrow>
          map (\<lambda>r. if ep_id r = ep_id e
                    then r\<lparr>ep_occurrences := ep_occurrences e + 1, ep_lastSeenAt := now\<rparr>
                    else r) tbl
      | [] \<Rightarrow>
          tbl @ [\<lparr>ep_id = next_id (map ep_id tbl), ep_studentId = sid,
                   ep_competenceCode = code, ep_tag = tag, ep_occurrences = 1,
                   ep_lastSeenAt = now\<rparr>])"

definition recordOutcome :: "attempt \<Rightarrow> date \<Rightarrow> db \<Rightarrow> exercise_outcome \<times> db" where
  "recordOutcome a now s =
     (let outcome = \<lparr>oc_id = next_id (map oc_id (exerciseOutcomes s)),
                      oc_studentId = studentId a, oc_exerciseId = exerciseId a,
                      oc_competenceCode = competenceCode a, oc_isCorrect = isCorrect a,
                      oc_hintsUsed = hintsUsed a, oc_timeSpentSec = timeSpentSec a,
                      oc_quality = quality a, oc_errorTags = errorTags a,
                      oc_attemptedAt = now\<rparr>;
          s1 = s\<lparr>exerciseOutcomes := exerciseOutcomes s @ [outcome]\<rparr>;
          s2 = s1\<lparr>errorPatterns :=
                    fold (upsertErrorPattern (studentId a) (competenceCode a) now)
                         (errorTags a) (errorPatterns s1)\<rparr>
      in (outcome, s2))"

subsection \<open>\<^verbatim>\<open>PrerequisiteService\<close>\<close>

text \<open>The rows of \<^verbatim>\<open>exerciseOutcomes\<close> of one learner and one competence, newest first,
  at most \<open>n\<close> of them: \<^verbatim>\<open>orderBy(desc(attemptedAt)).limit(n)\<close>.\<close>

definition recentOutcomes :: "db \<Rightarrow> int \<Rightarrow> string \<Rightarrow> nat \<Rightarrow> exercise_outcome list" where
  "recentOutcomes s sid code n =
     take n (sort_key (\<lambda>r. - oc_attemptedAt r)
              (filter (\<lambda>r. oc_studentId r = sid \<and> oc_competenceCode r = code)
                      (exerciseOutcomes s)))"

definition prereq_getPrerequisites :: "db \<Rightarrow> string \<Rightarrow> competence_prerequisite list" where
  "prereq_getPrerequisites s code =
     sort_key (\<lambda>r. - cp_weight r)
       (filter (\<lambda>r. cp_competenceCode r = code) (competencePrerequisites s))"

definition prereq_isBlocked :: "db \<Rightarrow> int \<Rightarrow> string \<Rightarrow> bool" where
  "prereq_isBlocked s sid code =
     (let outcomes = recentOutcomes s sid code 5;
          fails = length (filter (\<lambda>r. \<not> oc_isCorrect r) outcomes)
      in fails \<ge> 3)"

record remediation_action =
  ra_action :: string
  ra_prerequisiteCode :: string
  ra_weight :: real
  ra_reason :: string

definition prereq_getRemediation :: "db \<Rightarrow> int \<Rightarrow> string \<Rightarrow> remediation_action list option" where
  "prereq_getRemediation s sid code =
     (let blocked = prereq_isBlocked s sid code
      in if \<not> blocked then None
         else
           (let prereqs = prereq_getPrerequisites s code
            in Some (map (\<lambda>p. \<lparr>ra_action = ''Review prerequisite'',
                                ra_prerequisiteCode = cp_prerequisiteCode p,
                                ra_weight = cp_weight p,
                                ra_reason = ''Student blocked on '' @ code @ '', needs ''
                                              @ cp_prerequisiteCode p\<rparr>) prereqs)))"

subsection \<open>\<^verbatim>\<open>ReviewQueueRepo\<close>\<close>

definition createCard :: "int \<Rightarrow> string \<Rightarrow> date \<Rightarrow> db \<Rightarrow> review_card \<times> db" where
  "createCard sid code now s =
     (let tomorrow = addDays now 1;
          crd = \<lparr>rc_id = next_id (map rc_id (spacedRepetitionCards s)),
                   rc_studentId = sid, rc_competenceCode = code,
                   rc_easinessFactor = 2.5, rc_repetitionNumber = 0, rc_intervalDays = 1,
                   rc_lastReviewAt = now, rc_nextReviewAt = tomorrow, rc_lastQuality = 0,
                   rc_createdAt = now, rc_updatedAt = now\<rparr>
      in (crd, s\<lparr>spacedRepetitionCards := spacedRepetitionCards s @ [crd]\<rparr>))"

record schedule =
  sc_nextReviewAt :: date
  sc_intervalDays :: int
  sc_repetitionNumber :: nat
  sc_easinessFactor :: real
  sc_lastQuality :: real

definition updateCardSchedule :: "nat \<Rightarrow> schedule \<Rightarrow> date \<Rightarrow> db \<Rightarrow> db" where
  "updateCardSchedule cardId sc now s =
     s\<lparr>spacedRepetitionCards :=
         map (\<lambda>c. if rc_id c = cardId
                   then c\<lparr>rc_nextReviewAt := sc_nextReviewAt sc,
                          rc_intervalDays := sc_intervalDays sc,
                          rc_repetitionNumber := sc_repetitionNumber sc,
                          rc_easinessFactor := sc_easinessFactor sc,
                          rc_lastQuality := sc_lastQuality sc,
                          rc_lastReviewAt := now, rc_updatedAt := now\<rparr>
                   else c)
             (spacedRepetitionCards s)\<rparr>"

definition getDueCards :: "db \<Rightarrow> int \<Rightarrow> nat \<Rightarrow> date \<Rightarrow> review_card list" where
  "getDueCards s sid limit now =
     take limit (sort_key rc_nextReviewAt
       (filter (\<lambda>c. rc_studentId c = sid \<and> rc_nextReviewAt c < now)
               (spacedRepetitionCards s)))"

subsection \<open>\<^verbatim>\<open>SuperMemoService.calculateNextReview\<close>\<close>

record sm_result =
  sm_nextReviewDate :: date
  sm_interval :: int
  sm_repetitionNumber :: nat
  sm_easinessFactor :: real

text \<open>Modelled from the spec: \<^verbatim>\<open>services/supermemo.service.ts\<close> (the class
  \<^verbatim>\<open>SuperMemoService\<close> with \<^verbatim>\<open>calculateNextReview\<close>) is imported by
  \<^verbatim>\<open>MasteryService\<close> but is not among the sources. The update rule is the one of the
  specification, section 4.3: the new easiness factor is
  \<open>EF + (0.1 - (5 - q) * (0.08 + (5 - q) * 0.02))\<close> with a floor of \<open>1.3\<close>; a quality below
  \<open>3\<close> is a lapse (repetition number \<open>0\<close>, interval one day), any other quality adds one
  repetition; the interval is \<open>1\<close> day at the first repetition, \<open>6\<close> at the second and
  \<open>round (previous interval * new EF)\<close> afterwards; the next review is \<open>interval\<close> days
  after \<open>now\<close>. The specification does not describe the field \<^verbatim>\<open>difficulty\<close> of the
  result, which is left out here and in the value \<^verbatim>\<open>updateMastery\<close> returns.\<close>

definition calculateNextReview :: "review_card \<Rightarrow> real \<Rightarrow> date \<Rightarrow> sm_result" where
  "calculateNextReview crd q now =
     (let newEF = max 1.3 (rc_easinessFactor crd
                            + (0.1 - (5 - q) * (0.08 + (5 - q) * 0.02)));
          repetitionNumber = (if q < 3 then 0 else rc_repetitionNumber crd + 1);
          interval = (if q < 3 then 1
                      else if repetitionNumber = 1 then 1
                      else if repetitionNumber = 2 then 6
                      else Math_round (real_of_int (rc_intervalDays crd) * newEF))
      in \<lparr>sm_nextReviewDate = addDays now interval, sm_interval = interval,
           sm_repetitionNumber = repetitionNumber, sm_easinessFactor = newEF\<rparr>)"

subsection \<open>\<^verbatim>\<open>MasteryService.updateMastery\<close>\<close>

text \<open>The aggregates of a window of outcomes (lines 51 to 67 of the service).\<close>

definition totalAttemptsOf :: "exercise_outcome list \<Rightarrow> nat" where
  "totalAttemptsOf outcomes = (if length outcomes = 0 then 1 else length outcomes)"

definition successfulAttemptsOf :: "exercise_outcome list \<Rightarrow> nat" where
  "successfulAttemptsOf outcomes = length (filter oc_isCorrect outcomes)"

text \<open>The mean quality (lines 53 and 54): \<^verbatim>\<open>Number(o.quality)\<close> is the double nearest to
  the stored quality; the sum starts at \<open>0\<close>, takes the outcomes in the order of the window
  and is rounded after each addition; the quotient is rounded once more.\<close>

definition averageQualityOf :: "exercise_outcome list \<Rightarrow> real" where
  "averageQualityOf outcomes =
     binary64 (foldl (\<lambda>sum r. binary64 (sum + binary64 (oc_quality r))) 0 outcomes
               / real (totalAttemptsOf outcomes))"

definition totalTimeSpentOf :: "exercise_outcome list \<Rightarrow> int" where
  "totalTimeSpentOf outcomes = foldl (\<lambda>sum r. sum + oc_timeSpentSec r) 0 outcomes"

definition masteryPercentOf :: "exercise_outcome list \<Rightarrow> int \<Rightarrow> real" where
  "masteryPercentOf outcomes hints =
     (let p0 = (real (successfulAttemptsOf outcomes) / real (totalAttemptsOf outcomes)) * 100;
          p1 = p0 - min 10 (real_of_int (hints * 2))
      in max 0 (min 100 p1))"

definition masteryLevelOf :: "real \<Rightarrow> real \<Rightarrow> mastery_level" where
  "masteryLevelOf masteryPercent averageQuality =
     (if masteryPercent \<ge> 90 \<and> averageQuality \<ge> 3 then mastered
      else if masteryPercent \<ge> 50 then in_progress
      else not_started)"

definition needsReviewOf :: "real \<Rightarrow> real \<Rightarrow> bool" where
  "needsReviewOf masteryPercent averageQuality =
     (masteryPercent < 80 \<or> averageQuality < 2.5)"

definition averageScoreOf :: "exercise_outcome list \<Rightarrow> real" where
  "averageScoreOf outcomes =
     real_of_int (Math_round
       (((real (successfulAttemptsOf outcomes) / real (totalAttemptsOf outcomes)) * 100) * 100))
     / 100"

text \<open>The rows of \<^verbatim>\<open>studentProgress\<close> of one learner and one competence.\<close>

definition progressRows :: "student_progress list \<Rightarrow> int \<Rightarrow> string \<Rightarrow> student_progress list" where
  "progressRows tbl sid code =
     filter (\<lambda>r. sp_studentId r = sid \<and> sp_competenceCode r = code) tbl"

text \<open>The upsert of the progress row (lines 69 to 114): the first existing row of the pair
  is overwritten, \<^verbatim>\<open>masteredAt\<close> apart; without a row one is inserted.\<close>

definition upsertProgress ::
  "attempt \<Rightarrow> date \<Rightarrow> exercise_outcome list \<Rightarrow> student_progress list \<Rightarrow> student_progress list"
  where
  "upsertProgress a now outcomes tbl =
     (let totalAttempts = totalAttemptsOf outcomes;
          successfulAttempts = successfulAttemptsOf outcomes;
          averageQuality = averageQualityOf outcomes;
          totalTimeSpent = totalTimeSpentOf outcomes;
          masteryPercent = masteryPercentOf outcomes (hintsUsed a);
          masteryLevel = masteryLevelOf masteryPercent averageQuality;
          needsReview = needsReviewOf masteryPercent averageQuality
      in case progressRows tbl (studentId a) (competenceCode a) of
           prev # _ \<Rightarrow>
             map (\<lambda>r. if sp_id r = sp_id prev
                       then r\<lparr>sp_exerciseId := exerciseId a,
                              sp_progressPercent := masteryPercent,
                              sp_masteryLevel := masteryLevel,
                              sp_totalAttempts := totalAttempts,
                              sp_successfulAttempts := successfulAttempts,
                              sp_averageScore := averageScoreOf outcomes,
                              sp_totalTimeSpent := totalTimeSpent,
                              sp_lastAttemptAt := Some now,
                              sp_masteredAt :=
                                (if masteryLevel = mastered
                                 then (case sp_masteredAt prev of
                                         Some t \<Rightarrow> Some t | None \<Rightarrow> Some now)
                                 else sp_masteredAt prev),
                              sp_needsReview := needsReview,
                              sp_updatedAt := now\<rparr>
                       else r) tbl
         | [] \<Rightarrow>
             tbl @ [\<lparr>sp_id = next_id (map sp_id tbl),
                      sp_studentId = studentId a, sp_exerciseId = exerciseId a,
                      sp_competenceCode = competenceCode a,
                      sp_progressPercent = masteryPercent,
                      sp_masteryLevel = masteryLevel,
                      sp_totalAttempts = totalAttempts,
                      sp_successfulAttempts = successfulAttempts,
                      sp_averageScore = averageScoreOf outcomes,
                      sp_totalTimeSpent = totalTimeSpent,
                      sp_lastAttemptAt = Some now,
                      sp_masteredAt = (if masteryLevel = mastered then Some now else None),
                      sp_needsReview = needsReview,
                      sp_createdAt = now, sp_updatedAt = now\<rparr>])"

text \<open>The card of the pair, created when there is none, and its new schedule
  (lines 116 to 139).\<close>

definition cardRows :: "db \<Rightarrow> int \<Rightarrow> string \<Rightarrow> review_card list" where
  "cardRows s sid code =
     filter (\<lambda>c. rc_studentId c = sid \<and> rc_competenceCode c = code) (spacedRepetitionCards s)"

definition fetchOrCreateCard :: "attempt \<Rightarrow> date \<Rightarrow> db \<Rightarrow> review_card \<times> db" where
  "fetchOrCreateCard a now s =
     (case cardRows s (studentId a) (competenceCode a) of
        crd # _ \<Rightarrow> (crd, s)
      | [] \<Rightarrow> createCard (studentId a) (competenceCode a) now s)"

definition scheduleCard :: "attempt \<Rightarrow> date \<Rightarrow> db \<Rightarrow> sm_result \<times> db" where
  "scheduleCard a now s =
     (let (crd, s1) = fetchOrCreateCard a now s;
          smResult = calculateNextReview crd (quality a) now
      in (smResult,
          updateCardSchedule (rc_id crd)
            \<lparr>sc_nextReviewAt = sm_nextReviewDate smResult,
             sc_intervalDays = sm_interval smResult,
             sc_repetitionNumber = sm_repetitionNumber smResult,
             sc_easinessFactor = sm_easinessFactor smResult,
             sc_lastQuality = quality a\<rparr> now s1))"

record mastery_view =
  mv_percent :: real
  mv_level :: mastery_level
  mv_averageQuality :: real
  mv_needsReview :: bool

record spaced_repetition_view =
  sv_nextReview :: date
  sv_intervalDays :: int
  sv_repetitionNumber :: nat

datatype status = blocked | progressing

record update_result =
  ur_mastery :: mastery_view
  ur_spacedRepetition :: spaced_repetition_view
  ur_status :: status
  ur_remediation :: "remediation_action list option"

definition updateMastery :: "attempt \<Rightarrow> date \<Rightarrow> db \<Rightarrow> update_result \<times> db" where
  "updateMastery a now s =
     (let (outcome, s1) = recordOutcome a now s;
          outcomes = recentOutcomes s1 (studentId a) (competenceCode a) 20;
          averageQuality = averageQualityOf outcomes;
          masteryPercent = masteryPercentOf outcomes (hintsUsed a);
          masteryLevel = masteryLevelOf masteryPercent averageQuality;
          needsReview = needsReviewOf masteryPercent averageQuality;
          s2 = s1\<lparr>studentProgress := upsertProgress a now outcomes (studentProgress s1)\<rparr>;
          (smResult, s3) = scheduleCard a now s2;
          isBlocked = prereq_isBlocked s3 (studentId a) (competenceCode a);
          remediation = (if isBlocked
                         then prereq_getRemediation s3 (studentId a) (competenceCode a)
                         else None)
      in (\<lparr>ur_mastery =
             \<lparr>mv_percent = real_of_int (Math_round (masteryPercent * 100)) / 100,
              mv_level = masteryLevel,
              mv_averageQuality = real_of_int (Math_round (averageQuality * 100)) / 100,
              mv_needsReview = needsReview\<rparr>,
           ur_spacedRepetition =
             \<lparr>sv_nextReview = sm_nextReviewDate smResult,
              sv_intervalDays = sm_interval smResult,
              sv_repetitionNumber = sm_repetitionNumber smResult\<rparr>,
           ur_status = (if isBlocked then blocked else progressing),
           ur_remediation = remediation\<rparr>, s3))"

subsection \<open>The curriculum tables\<close>

text \<open>
  A JavaScript object used as a dictionary is the list of its entries in the order of
  \<^verbatim>\<open>Object.entries\<close>; \<^verbatim>\<open>obj[key]\<close> is \<open>map_of\<close>. The keys are curriculum codes: the
  properties every object inherits from \<^verbatim>\<open>Object.prototype\<close> are not modelled. A value of
  type \<^verbatim>\<open>Record<string, any>\<close> is its JSON text.
\<close>

type_synonym json = string

datatype niveau = CP | CE1 | CE2

record ce1_competence_data =
  ce1_code :: string
  ce1_titre :: string
  ce1_description :: string
  ce1_prerequis_cp :: "string list"
  ce1_prerequis_details :: "string list"
  ce1_saut_qualitatif :: "string option"
  ce1_nouveaute :: "string option"
  ce1_evaluation :: string
  ce1_donnees_chiffrees :: "json option"

type_synonym ce1_domain = "(string \<times> ce1_competence_data) list"

record ce1_framework =
  ce1_niveau :: string
  ce1_annee_application :: string
  ce1_francais :: "(string \<times> ce1_domain) list"
  ce1_mathematiques :: "(string \<times> ce1_domain) list"

record ce2_competence_data =
  ce2_code :: string
  ce2_titre :: string
  ce2_description :: string
  ce2_prerequis_ce1 :: "string list"
  ce2_prerequis_details :: "string list"
  ce2_saut_qualitatif :: "string option"
  ce2_nouveaute :: "string option"
  ce2_evaluation :: string
  ce2_donnees_chiffrees :: "json option"

type_synonym ce2_domain = "(string \<times> ce2_competence_data) list"

record ce2_framework =
  ce2_niveau :: string
  ce2_annee_application :: string
  ce2_francais :: "(string \<times> ce2_domain) list"
  ce2_mathematiques :: "(string \<times> ce2_domain) list"

text \<open>An entry of \<^verbatim>\<open>competenceReference\<close> (\<^verbatim>\<open>cp2025-competences\<close>, which is not among the
  sources): the fields the service reads.\<close>

record cp_competence_data =
  cp_titre :: string
  cp_description :: string
  cp_prerequis :: "string list option"
  cp_periode :: "string option"
  cp_objectifs :: "string list option"

record curriculum =
  cpCompetences :: "(string \<times> cp_competence_data) list"
  ce1Competences :: ce1_framework
  ce2Competences :: ce2_framework

text \<open>The truth value JavaScript gives an optional string: \<^verbatim>\<open>undefined\<close> and the empty
  string are false.\<close>

definition truthy :: "string option \<Rightarrow> bool" where
  "truthy v = (case v of None \<Rightarrow> False | Some t \<Rightarrow> t \<noteq> [])"

text \<open>\<^verbatim>\<open>Array.prototype.forEach\<close> with a callback that has no effect: every value the
  callback returns is dropped, and the call itself returns \<^verbatim>\<open>undefined\<close>.\<close>

definition forEach :: "'a list \<Rightarrow> ('a \<Rightarrow> 'b) \<Rightarrow> unit" where
  "forEach xs callback = fold (\<lambda>x u. (let r = callback x in ())) xs ()"

subsection \<open>Helper functions of \<^verbatim>\<open>ce1-competences-2025.ts\<close>\<close>

definition getAllCE1CompetenceCodes :: "ce1_framework \<Rightarrow> string list" where
  "getAllCE1CompetenceCodes fw =
     concat (map (\<lambda>domain. map fst domain) (map snd (ce1_francais fw)))
     @ concat (map (\<lambda>domain. map fst domain) (map snd (ce1_mathematiques fw)))"

definition getCE1CompetenceByCode :: "ce1_framework \<Rightarrow> string \<Rightarrow> ce1_competence_data option" where
  "getCE1CompetenceByCode fw code =
     (let u1 = forEach (map snd (ce1_francais fw)) (\<lambda>domain. map_of domain code);
          u2 = forEach (map snd (ce1_mathematiques fw)) (\<lambda>domain. map_of domain code)
      in None)"

definition getCE1PrerequisitesForCompetence :: "ce1_framework \<Rightarrow> string \<Rightarrow> string list" where
  "getCE1PrerequisitesForCompetence fw code =
     (case getCE1CompetenceByCode fw code of
        Some competence \<Rightarrow> ce1_prerequis_cp competence
      | None \<Rightarrow> [])"

definition hasCE1MajorQualitativeLeap :: "ce1_framework \<Rightarrow> string \<Rightarrow> bool" where
  "hasCE1MajorQualitativeLeap fw code =
     (case getCE1CompetenceByCode fw code of
        Some competence \<Rightarrow> truthy (ce1_saut_qualitatif competence)
      | None \<Rightarrow> False)"

definition getCE1CompetencesWithMajorLeaps :: "ce1_framework \<Rightarrow> ce1_competence_data list" where
  "getCE1CompetencesWithMajorLeaps fw =
     concat (map (\<lambda>domain. filter (\<lambda>competence. truthy (ce1_saut_qualitatif competence))
                                  (map snd domain))
                 (map snd (ce1_francais fw)))
     @ concat (map (\<lambda>domain. filter (\<lambda>competence. truthy (ce1_saut_qualitatif competence))
                                    (map snd domain))
                   (map snd (ce1_mathematiques fw)))"

subsection \<open>Helper functions of \<^verbatim>\<open>ce2-competences-2026.ts\<close>\<close>

text \<open>The object \<^verbatim>\<open>{...a, ...b}\<close>: the entries of \<open>a\<close>, a value replaced by the one \<open>b\<close>
  has for the same key, then the entries of \<open>b\<close> whose key is new.\<close>

definition spread :: "('k \<times> 'v) list \<Rightarrow> ('k \<times> 'v) list \<Rightarrow> ('k \<times> 'v) list" where
  "spread a b =
     map (\<lambda>(k, v). (k, case map_of b k of Some v' \<Rightarrow> v' | None \<Rightarrow> v)) a
     @ filter (\<lambda>(k, v). map_of a k = None) b"

text \<open>The loop of \<^verbatim>\<open>getCompetenceByCode\<close>: the first domain that has the code decides.\<close>

fun lookupInDomains :: "string \<Rightarrow> ce2_domain list \<Rightarrow> ce2_competence_data option" where
  "lookupInDomains code [] = None"
| "lookupInDomains code (domain # domains) =
     (case map_of domain code of
        Some competence \<Rightarrow> Some competence
      | None \<Rightarrow> lookupInDomains code domains)"

definition ce2_getCompetenceByCode :: "ce2_framework \<Rightarrow> string \<Rightarrow> ce2_competence_data option" where
  "ce2_getCompetenceByCode fw code =
     (let allDomains = spread (ce2_francais fw) (ce2_mathematiques fw)
      in lookupInDomains code (map snd allDomains))"

definition hasMajorQualitativeLeap :: "ce2_framework \<Rightarrow> string \<Rightarrow> bool" where
  "hasMajorQualitativeLeap fw code =
     (case ce2_getCompetenceByCode fw code of
        Some competence \<Rightarrow>
          truthy (ce2_saut_qualitatif competence) \<or> truthy (ce2_nouveaute competence)
      | None \<Rightarrow> False)"

definition getCompetencesWithMajorLeaps :: "ce2_framework \<Rightarrow> ce2_competence_data list" where
  "getCompetencesWithMajorLeaps fw =
     concat (map (\<lambda>domain. filter (\<lambda>competence. hasMajorQualitativeLeap fw (ce2_code competence))
                                  (map snd domain))
                 (map snd (ce2_francais fw)))
     @ concat (map (\<lambda>domain. filter (\<lambda>competence. hasMajorQualitativeLeap fw (ce2_code competence))
                                    (map snd domain))
                   (map snd (ce2_mathematiques fw)))"

subsection \<open>\<^verbatim>\<open>CompetenceFrameworkService\<close>\<close>

record unified_competence_data =
  u_code :: string
  u_titre :: string
  u_description :: string
  u_niveau :: niveau
  u_domaine :: string
  u_sousDomaine :: string
  u_prerequis :: "string list"
  u_prerequis_details :: "string list option"
  u_saut_qualitatif :: "string option"
  u_nouveaute :: "string option"
  u_evaluation :: string
  u_donnees_chiffrees :: "json option"
  u_periode :: "string option"
  u_objectifs :: "string list option"

definition startsWith :: "string \<Rightarrow> string \<Rightarrow> bool" where
  "startsWith str p = (take (length p) str = p)"

text \<open>\<^verbatim>\<open>String.split\<close> at a one-character separator.\<close>

fun split :: "string \<Rightarrow> char \<Rightarrow> string list" where
  "split [] sep = [[]]"
| "split (c # cs) sep =
     (if c = sep then [] # split cs sep
      else (case split cs sep of
              part # parts \<Rightarrow> (c # part) # parts
            | [] \<Rightarrow> [[c]]))"

text \<open>\<^verbatim>\<open>String.toLowerCase\<close> on the ASCII letters; the codes of the curriculum have no
  other letters.\<close>

definition toLowerCase :: "string \<Rightarrow> string" where
  "toLowerCase str =
     map (\<lambda>c. if (65::nat) \<le> of_char c \<and> of_char c \<le> (90::nat)
               then char_of (of_char c + (32::nat)) else c) str"

definition getDomainFromCode :: "string \<Rightarrow> string" where
  "getDomainFromCode code =
     (if startsWith code ''CP.FR.'' then ''francais''
      else if startsWith code ''CP.MA.'' then ''mathematiques''
      else if startsWith code ''CE1.FR.'' then ''francais''
      else if startsWith code ''CE1.MA.'' then ''mathematiques''
      else if startsWith code ''CE2.FR.'' then ''francais''
      else if startsWith code ''CE2.MA.'' then ''mathematiques''
      else ''unknown'')"

definition getSubDomainFromCode :: "string \<Rightarrow> string" where
  "getSubDomainFromCode code =
     (let parts = split code CHR ''.''
      in if length parts \<ge> 3 then toLowerCase (parts ! 2) else ''unknown'')"

text \<open>The text \<^verbatim>\<open>Evaluation continue et formative\<close>, its first letter with an acute
  accent, in UTF-8 (the letter is the two bytes \<open>0xC3 0x89\<close>).\<close>

definition evaluation_continue :: string where
  "evaluation_continue = [CHR 0xC3, CHR 0x89] @ ''valuation continue et formative''"

definition unifiedCP :: "string \<Rightarrow> cp_competence_data \<Rightarrow> unified_competence_data" where
  "unifiedCP code d =
     \<lparr>u_code = code, u_titre = cp_titre d, u_description = cp_description d,
      u_niveau = CP, u_domaine = getDomainFromCode code,
      u_sousDomaine = getSubDomainFromCode code,
      u_prerequis = (case cp_prerequis d of Some ps \<Rightarrow> ps | None \<Rightarrow> []),
      u_prerequis_details = None, u_saut_qualitatif = None, u_nouveaute = None,
      u_evaluation = evaluation_continue, u_donnees_chiffrees = None,
      u_periode = cp_periode d,
      u_objectifs = Some (case cp_objectifs d of Some os \<Rightarrow> os | None \<Rightarrow> [])\<rparr>"

definition unifiedCE1 :: "string \<Rightarrow> string \<Rightarrow> ce1_competence_data \<Rightarrow> unified_competence_data" where
  "unifiedCE1 domaine sousDomaine c =
     \<lparr>u_code = ce1_code c, u_titre = ce1_titre c, u_description = ce1_description c,
      u_niveau = CE1, u_domaine = domaine, u_sousDomaine = sousDomaine,
      u_prerequis = ce1_prerequis_cp c,
      u_prerequis_details = Some (ce1_prerequis_details c),
      u_saut_qualitatif = ce1_saut_qualitatif c, u_nouveaute = ce1_nouveaute c,
      u_evaluation = ce1_evaluation c, u_donnees_chiffrees = ce1_donnees_chiffrees c,
      u_periode = None, u_objectifs = None\<rparr>"

definition unifiedCE2 :: "string \<Rightarrow> string \<Rightarrow> ce2_competence_data \<Rightarrow> unified_competence_data" where
  "unifiedCE2 domaine sousDomaine c =
     \<lparr>u_code = ce2_code c, u_titre = ce2_titre c, u_description = ce2_description c,
      u_niveau = CE2, u_domaine = domaine, u_sousDomaine = sousDomaine,
      u_prerequis = ce2_prerequis_ce1 c,
      u_prerequis_details = Some (ce2_prerequis_details c),
      u_saut_qualitatif = ce2_saut_qualitatif c, u_nouveaute = ce2_nouveaute c,
      u_evaluation = ce2_evaluation c, u_donnees_chiffrees = ce2_donnees_chiffrees c,
      u_periode = None, u_objectifs = None\<rparr>"

definition getCompetencesByLevel :: "curriculum \<Rightarrow> niveau \<Rightarrow> unified_competence_data list" where
  "getCompetencesByLevel cur niv =
     (case niv of
        CP \<Rightarrow> map (\<lambda>(code, d). unifiedCP code d) (cpCompetences cur)
      | CE1 \<Rightarrow>
          concat (map (\<lambda>(domainKey, domain). map (unifiedCE1 ''francais'' domainKey) (map snd domain))
                      (ce1_francais (ce1Competences cur)))
          @ concat (map (\<lambda>(domainKey, domain).
                           map (unifiedCE1 ''mathematiques'' domainKey) (map snd domain))
                        (ce1_mathematiques (ce1Competences cur)))
      | CE2 \<Rightarrow>
          concat (map (\<lambda>(domainKey, domain). map (unifiedCE2 ''francais'' domainKey) (map snd domain))
                      (ce2_francais (ce2Competences cur)))
          @ concat (map (\<lambda>(domainKey, domain).
                           map (unifiedCE2 ''mathematiques'' domainKey) (map snd domain))
                        (ce2_mathematiques (ce2Competences cur))))"

definition getCompetenceByCode :: "curriculum \<Rightarrow> string \<Rightarrow> unified_competence_data option" where
  "getCompetenceByCode cur code =
     (case map_of (cpCompetences cur) code of
        Some d \<Rightarrow> Some (unifiedCP code d)
      | None \<Rightarrow>
          (case getCE1CompetenceByCode (ce1Competences cur) code of
             Some ce1Competence \<Rightarrow>
               Some (unifiedCE1 (getDomainFromCode code) (getSubDomainFromCode code) ce1Competence)
           | None \<Rightarrow>
               (case ce2_getCompetenceByCode (ce2Competences cur) code of
                  Some ce2Competence \<Rightarrow>
                    Some (unifiedCE2 (getDomainFromCode code) (getSubDomainFromCode code)
                            ce2Competence)
                | None \<Rightarrow> None)))"

text \<open>\<^verbatim>\<open>[...new Set(xs)]\<close>: the elements of \<open>xs\<close> in the order of their first occurrence.\<close>

definition dedup :: "'a list \<Rightarrow> 'a list" where
  "dedup xs = fold (\<lambda>x acc. if x \<in> set acc then acc else acc @ [x]) xs []"

definition getPrerequisites :: "curriculum \<Rightarrow> db \<Rightarrow> string \<Rightarrow> string list" where
  "getPrerequisites cur s code =
     (let dbPrerequisites =
            filter (\<lambda>p. cp_competenceCode p = code) (competencePrerequisites s);
          dbPrereqCodes = map cp_prerequisiteCode dbPrerequisites;
          frameworkPrereqs = (case getCompetenceByCode cur code of
                                Some competence \<Rightarrow> u_prerequis competence
                              | None \<Rightarrow> [])
      in dedup (dbPrereqCodes @ frameworkPrereqs))"

record blocked_result =
  br_isBlocked :: bool
  br_blockingPrerequisites :: "string list"
  br_missingPrerequisites :: "string list"

text \<open>The test of the loop of \<^verbatim>\<open>isBlocked\<close>: the learner has no progress row for the
  prerequisite, or the first one is not at the level \<^verbatim>\<open>mastered\<close>.\<close>

definition notMastered :: "db \<Rightarrow> int \<Rightarrow> string \<Rightarrow> bool" where
  "notMastered s sid prereqCode =
     (case progressRows (studentProgress s) sid prereqCode of
        [] \<Rightarrow> True
      | r # _ \<Rightarrow> sp_masteryLevel r \<noteq> mastered)"

definition isBlocked :: "curriculum \<Rightarrow> db \<Rightarrow> int \<Rightarrow> string \<Rightarrow> blocked_result" where
  "isBlocked cur s sid code =
     (let prerequisites = getPrerequisites cur s code;
          (blockingPrerequisites, missingPrerequisites) =
             fold (\<lambda>prereqCode (blocking, missing).
                     if notMastered s sid prereqCode
                     then (blocking @ [prereqCode], missing @ [prereqCode])
                     else (blocking, missing))
                  prerequisites ([], [])
      in \<lparr>br_isBlocked = (length blockingPrerequisites > 0),
           br_blockingPrerequisites = blockingPrerequisites,
           br_missingPrerequisites = missingPrerequisites\<rparr>)"

datatype priority = high | medium | low

datatype recommendation_type = review | new | remediation | prerequisite

record recommendation =
  r_priority :: priority
  r_competenceCode :: string
  r_reason :: string
  r_type :: recommendation_type

fun priorityOrder :: "priority \<Rightarrow> int" where
  "priorityOrder high = 3"
| "priorityOrder medium = 2"
| "priorityOrder low = 1"

text \<open>\<^verbatim>\<open>Array.join\<close>.\<close>

fun join :: "string list \<Rightarrow> string \<Rightarrow> string" where
  "join [] sep = []"
| "join [x] sep = x"
| "join (x # y # ys) sep = x @ sep @ join (y # ys) sep"

text \<open>The texts of the recommendations, in UTF-8: \<^verbatim>\<open>Besoin de revision - performance
  faible\<close>, \<^verbatim>\<open>Nouvelle competence disponible\<close>, \<^verbatim>\<open>Prerequis manquants: \<close> and
  \<^verbatim>\<open>Saut qualitatif majeur - priorite elevee\<close>, where the source writes each \<open>e\<close> that
  carries an acute accent as the two bytes \<open>0xC3 0xA9\<close>.\<close>

definition reason_review :: string where
  "reason_review = ''Besoin de r'' @ [CHR 0xC3, CHR 0xA9] @ ''vision - performance faible''"

definition reason_new :: string where
  "reason_new = ''Nouvelle comp'' @ [CHR 0xC3, CHR 0xA9] @ ''tence disponible''"

definition reason_missing :: "string list \<Rightarrow> string" where
  "reason_missing missing =
     ''Pr'' @ [CHR 0xC3, CHR 0xA9] @ ''requis manquants: '' @ join missing '', ''"

definition reason_leap :: string where
  "reason_leap = ''Saut qualitatif majeur - priorit'' @ [CHR 0xC3, CHR 0xA9] @ '' ''
                 @ [CHR 0xC3, CHR 0xA9] @ ''lev'' @ [CHR 0xC3, CHR 0xA9] @ ''e''"

text \<open>\<^verbatim>\<open>new Map(rows.map(p => [p.competenceCode, p]))\<close>: the last row of a code wins.\<close>

definition progressMap :: "student_progress list \<Rightarrow> string \<Rightarrow> student_progress option" where
  "progressMap rows = map_of (rev (map (\<lambda>p. (sp_competenceCode p, p)) rows))"

definition getRecommendations :: "curriculum \<Rightarrow> db \<Rightarrow> int \<Rightarrow> niveau \<Rightarrow> recommendation list" where
  "getRecommendations cur s sid niv =
     (let competences = getCompetencesByLevel cur niv;
          rows = filter (\<lambda>p. sp_studentId p = sid) (studentProgress s);
          reviews =
            map (\<lambda>p. \<lparr>r_priority = high, r_competenceCode = sp_competenceCode p,
                       r_reason = reason_review, r_type = review\<rparr>)
                (filter sp_needsReview rows);
          news =
            concat (map (\<lambda>competence.
                      case progressMap rows (u_code competence) of
                        Some p \<Rightarrow> []
                      | None \<Rightarrow>
                          (let b = isBlocked cur s sid (u_code competence)
                           in if \<not> br_isBlocked b
                              then [\<lparr>r_priority = medium, r_competenceCode = u_code competence,
                                     r_reason = reason_new, r_type = new\<rparr>]
                              else [\<lparr>r_priority = low, r_competenceCode = u_code competence,
                                     r_reason = reason_missing (br_missingPrerequisites b),
                                     r_type = prerequisite\<rparr>]))
                    competences);
          leaps = (case niv of
                     CE1 \<Rightarrow> map ce1_code (getCE1CompetencesWithMajorLeaps (ce1Competences cur))
                   | CE2 \<Rightarrow> map ce2_code (getCompetencesWithMajorLeaps (ce2Competences cur))
                   | CP \<Rightarrow> []);
          remediations =
            concat (map (\<lambda>leapCode.
                      case progressMap rows leapCode of
                        Some p \<Rightarrow>
                          if sp_masteryLevel p = in_progress
                          then [\<lparr>r_priority = high, r_competenceCode = leapCode,
                                 r_reason = reason_leap, r_type = remediation\<rparr>]
                          else []
                      | None \<Rightarrow> [])
                    leaps)
      in sort_key (\<lambda>r. - priorityOrder (r_priority r)) (reviews @ news @ remediations))"

definition getCompetencesWithLeaps :: "curriculum \<Rightarrow> niveau \<Rightarrow> unified_competence_data list" where
  "getCompetencesWithLeaps cur niv =
     (let competences = getCompetencesByLevel cur niv
      in case niv of
           CE1 \<Rightarrow> filter (\<lambda>c. hasCE1MajorQualitativeLeap (ce1Competences cur) (u_code c)) competences
         | CE2 \<Rightarrow> filter (\<lambda>c. hasMajorQualitativeLeap (ce2Competences cur) (u_code c)) competences
         | CP \<Rightarrow> filter (\<lambda>c. length (u_prerequis c) > 0) competences)"

subsection \<open>Reading the state\<close>

text \<open>The progress row and the card the services read for a pair: the first row of the
  selection, \<^verbatim>\<open>existing[0]\<close>.\<close>

definition progressOf :: "db \<Rightarrow> int \<Rightarrow> string \<Rightarrow> student_progress option" where
  "progressOf s sid code =
     (case progressRows (studentProgress s) sid code of [] \<Rightarrow> None | r # _ \<Rightarrow> Some r)"

definition cardOf :: "db \<Rightarrow> int \<Rightarrow> string \<Rightarrow> review_card option" where
  "cardOf s sid code = (case cardRows s sid code of [] \<Rightarrow> None | c # _ \<Rightarrow> Some c)"

text \<open>The counter of a learner, a competence and a tag: the occurrences of the first row
  of the selection, \<open>0\<close> when there is no row.\<close>

definition occurrencesOf :: "db \<Rightarrow> int \<Rightarrow> string \<Rightarrow> string \<Rightarrow> int" where
  "occurrencesOf s sid code tag =
     (case filter (matchesPattern sid code tag) (errorPatterns s) of
        [] \<Rightarrow> 0
      | e # _ \<Rightarrow> ep_occurrences e)"

text \<open>The window of \<^verbatim>\<open>updateMastery\<close>: the twenty most recent outcomes of the pair.\<close>

definition masteryWindow :: "db \<Rightarrow> int \<Rightarrow> string \<Rightarrow> exercise_outcome list" where
  "masteryWindow s sid code = recentOutcomes s sid code 20"

text \<open>A sequence of calls of \<^verbatim>\<open>updateMastery\<close>, each with the time of its call.\<close>

fun updateMasteryAll :: "(attempt \<times> date) list \<Rightarrow> db \<Rightarrow> db" where
  "updateMasteryAll [] s = s"
| "updateMasteryAll ((a, now) # calls) s = updateMasteryAll calls (snd (updateMastery a now s))"

subsection \<open>Concrete states and attempts\<close>

definition empty_db :: db where
  "empty_db = \<lparr>exerciseOutcomes = [], errorPatterns = [], studentProgress = [],
               spacedRepetitionCards = [], competencePrerequisites = []\<rparr>"

text \<open>An attempt of learner \<open>1\<close> on the competence \<^verbatim>\<open>CP.FR.L1.1\<close>.\<close>

definition example_attempt :: "bool \<Rightarrow> int \<Rightarrow> real \<Rightarrow> attempt" where
  "example_attempt correct hints q =
     \<lparr>studentId = 1, exerciseId = 7, competenceCode = ''CP.FR.L1.1'', isCorrect = correct,
      hintsUsed = hints, timeSpentSec = 30, quality = q, errorTags = []\<rparr>"

text \<open>Nineteen earlier outcomes of learner \<open>1\<close> on \<^verbatim>\<open>CP.FR.L1.1\<close>, each of quality \<open>4\<close>,
  the first two incorrect; outcome \<open>i\<close> was attempted at time \<open>i\<close>.\<close>

definition prior_outcome :: "nat \<Rightarrow> bool \<Rightarrow> exercise_outcome" where
  "prior_outcome i correct =
     \<lparr>oc_id = i, oc_studentId = 1, oc_exerciseId = 7, oc_competenceCode = ''CP.FR.L1.1'',
      oc_isCorrect = correct, oc_hintsUsed = 0, oc_timeSpentSec = 30, oc_quality = 4,
      oc_errorTags = [], oc_attemptedAt = int i\<rparr>"




text \<open>An attempt whose quality is above \<open>5\<close> and whose counters are negative.\<close>

definition bad_attempt :: attempt where
  "bad_attempt =
     \<lparr>studentId = 1, exerciseId = 7, competenceCode = ''CP.FR.L1.1'', isCorrect = True,
      hintsUsed = - 1, timeSpentSec = - 5, quality = 7, errorTags = [''carry'']\<rparr>"

text \<open>Malformed, in the words of the specification: the quality is outside \<open>[0, 5]\<close>, or
  \<open>hintsUsed\<close> or \<open>timeSpentSeconds\<close> is negative.\<close>

definition spec_malformed :: "attempt \<Rightarrow> bool" where
  "spec_malformed a = (quality a < 0 \<or> 5 < quality a \<or> hintsUsed a < 0 \<or> timeSpentSec a < 0)"

text \<open>Learner \<open>1\<close> failed \<^verbatim>\<open>CP.FR.L1.1\<close> three times; the competence has two prerequisite
  edges.\<close>

definition remediation_db :: db where
  "remediation_db = empty_db
     \<lparr>exerciseOutcomes := [prior_outcome 1 False, prior_outcome 2 False, prior_outcome 3 False],
      competencePrerequisites :=
        [\<lparr>cp_competenceCode = ''CP.FR.L1.1'', cp_prerequisiteCode = ''CP.FR.O1.2'',
          cp_weight = 0.5, cp_description = ''''\<rparr>,
         \<lparr>cp_competenceCode = ''CP.FR.L1.1'', cp_prerequisiteCode = ''CP.FR.O1.1'',
          cp_weight = 1, cp_description = ''''\<rparr>]\<rparr>"

text \<open>The same state where learner \<open>1\<close> has mastered both prerequisites of
  \<^verbatim>\<open>CP.FR.L1.1\<close>; learner \<open>2\<close> has no outcome and no progress row.\<close>

definition mastered_row :: "nat \<Rightarrow> string \<Rightarrow> student_progress" where
  "mastered_row i code =
     \<lparr>sp_id = i, sp_studentId = 1, sp_exerciseId = 3, sp_competenceCode = code,
      sp_progressPercent = 100, sp_masteryLevel = mastered, sp_totalAttempts = 5,
      sp_successfulAttempts = 5, sp_averageScore = 100, sp_totalTimeSpent = 150,
      sp_lastAttemptAt = Some 900, sp_masteredAt = Some 900, sp_needsReview = False,
      sp_createdAt = 500, sp_updatedAt = 900\<rparr>"

definition mastered_db :: db where
  "mastered_db = remediation_db
     \<lparr>studentProgress := [mastered_row 1 ''CP.FR.O1.1'', mastered_row 2 ''CP.FR.O1.2'']\<rparr>"

text \<open>The first entry of \<^verbatim>\<open>CE1_COMPETENCES_2025\<close>, the competence \<^verbatim>\<open>CE1.FR.O1.1\<close> of the domain
  \<^verbatim>\<open>francais.oral\<close>, with its texts in UTF-8, and the framework that holds this entry
  alone (the other entries of the source have the same shape).\<close>

definition ce1_fr_o1_1 :: ce1_competence_data where
  "ce1_fr_o1_1 =
     \<lparr>ce1_code = ''CE1.FR.O1.1'',
      ce1_titre =
        ''Maintenir une attention orient'' @ [CHR 0xC3, CHR 0xA9]
        @ ''e en fonction d'' @ [CHR 0x27] @ ''un but lors d''
        @ [CHR 0x27, CHR 0xC3, CHR 0xA9] @ ''coutes longues'',
      ce1_description =
        ''D'' @ [CHR 0xC3, CHR 0xA9] @ ''velopper la capacit'' @ [CHR 0xC3, CHR 0xA9]
        @ '' d'' @ [CHR 0x27, CHR 0xC3, CHR 0xA9] @ ''coute soutenue et orient''
        @ [CHR 0xC3, CHR 0xA9] @ ''e vers un objectif sp'' @ [CHR 0xC3, CHR 0xA9]
        @ ''cifique'',
      ce1_prerequis_cp = [''CP.FR.O1.1'', ''CP.FR.O1.2''],
      ce1_prerequis_details =
        [[CHR 0xC3, CHR 0x89] @ ''couter pour comprendre des consignes courtes'',
         ''Maintenir l'' @ [CHR 0x27] @ ''attention sur des r'' @ [CHR 0xC3, CHR 0xA9]
         @ ''cits courts''],
      ce1_saut_qualitatif =
        Some (''Passage d'' @ [CHR 0x27, CHR 0xC3, CHR 0xA9] @ ''coutes courtes ''
              @ [CHR 0xC3, CHR 0xA0] @ '' des '' @ [CHR 0xC3, CHR 0xA9]
              @ ''coutes longues et orient'' @ [CHR 0xC3, CHR 0xA9] @ ''es''),
      ce1_nouveaute = None,
      ce1_evaluation =
        ''Observation de l'' @ [CHR 0x27] @ ''attention lors d''
        @ [CHR 0x27, CHR 0xC3, CHR 0xA9] @ ''coutes de 10-15 minutes'',
      ce1_donnees_chiffrees = None\<rparr>"

definition ce1_excerpt :: ce1_framework where
  "ce1_excerpt =
     \<lparr>ce1_niveau = ''CE1'', ce1_annee_application = ''2025-2026'',
      ce1_francais =
        [(''oral'', [(''CE1.FR.O1.1'', ce1_fr_o1_1)]), (''lecture'', []), (''ecriture'', []),
         (''vocabulaire'', []), (''grammaire'', [])],
      ce1_mathematiques =
        [(''nombres'', []), (''calcul'', []), (''problemes'', []), (''grandeurs_mesures'', []),
         (''espace_geometrie'', []), (''organisation_donnees'', [])]\<rparr>"

definition ce2_empty :: ce2_framework where
  "ce2_empty =
     \<lparr>ce2_niveau = ''CE2'', ce2_annee_application = ''2026-2027'',
      ce2_francais =
        [(''oral'', []), (''lecture'', []), (''ecriture'', []), (''vocabulaire'', []),
         (''grammaire'', []), (''orthographe'', [])],
      ce2_mathematiques =
        [(''nombres'', []), (''calcul'', []), (''problemes'', []), (''grandeurs_mesures'', []),
         (''espace_geometrie'', []), (''organisation_donnees'', [])]\<rparr>"

text \<open>Three competences of the level CP, the third with the first two as prerequisites,
  beside the CE1 excerpt.\<close>

definition cp_entry :: "string \<Rightarrow> string list \<Rightarrow> cp_competence_data" where
  "cp_entry titre prerequis =
     \<lparr>cp_titre = titre, cp_description = titre, cp_prerequis = Some prerequis,
      cp_periode = None, cp_objectifs = None\<rparr>"

definition example_curriculum :: curriculum where
  "example_curriculum =
     \<lparr>cpCompetences =
        [(''CP.FR.L1.1'', cp_entry ''L1.1'' []),
         (''CP.FR.L1.2'', cp_entry ''L1.2'' []),
         (''CP.FR.L1.3'', cp_entry ''L1.3'' [''CP.FR.L1.1'', ''CP.FR.L1.2''])],
      ce1Competences = ce1_excerpt,
      ce2Competences = ce2_empty\<rparr>"

text \<open>Learner \<open>1\<close> has one progress row, for \<^verbatim>\<open>CP.FR.L1.1\<close>: in progress, to be reviewed.\<close>

definition recommendation_db :: db where
  "recommendation_db = empty_db
     \<lparr>studentProgress :=
        [\<lparr>sp_id = 1, sp_studentId = 1, sp_exerciseId = 7, sp_competenceCode = ''CP.FR.L1.1'',
          sp_progressPercent = 60, sp_masteryLevel = in_progress, sp_totalAttempts = 5,
          sp_successfulAttempts = 3, sp_averageScore = 60, sp_totalTimeSpent = 150,
          sp_lastAttemptAt = Some 1000, sp_masteredAt = None, sp_needsReview = True,
          sp_createdAt = 500, sp_updatedAt = 1000\<rparr>]\<rparr>"

section \<open>Auxiliary facts\<close>


subsection \<open>What each step of \<^verbatim>\<open>updateMastery\<close> writes\<close>

lemma recordOutcome_tables:
  "exerciseOutcomes (snd (recordOutcome a now s)) = exerciseOutcomes s @ [fst (recordOutcome a now s)]"
  "studentProgress (snd (recordOutcome a now s)) = studentProgress s"
  "spacedRepetitionCards (snd (recordOutcome a now s)) = spacedRepetitionCards s"
  "competencePrerequisites (snd (recordOutcome a now s)) = competencePrerequisites s"
  by (simp_all add: recordOutcome_def Let_def)

lemma scheduleCard_tables:
  "exerciseOutcomes (snd (scheduleCard a now s)) = exerciseOutcomes s"
  "studentProgress (snd (scheduleCard a now s)) = studentProgress s"
  "competencePrerequisites (snd (scheduleCard a now s)) = competencePrerequisites s"
  by (simp_all add: scheduleCard_def fetchOrCreateCard_def createCard_def updateCardSchedule_def
      Let_def split: list.splits prod.splits)

lemma updateMastery_outcomes:
  "exerciseOutcomes (snd (updateMastery a now s)) = exerciseOutcomes s @ [fst (recordOutcome a now s)]"
  by (simp add: updateMastery_def Let_def split_beta scheduleCard_tables recordOutcome_tables)

lemma recentOutcomes_cong:
  "exerciseOutcomes s = exerciseOutcomes s' \<Longrightarrow> recentOutcomes s sid code n = recentOutcomes s' sid code n"
  by (simp add: recentOutcomes_def)

lemma updateMastery_window:
  "recentOutcomes (snd (recordOutcome a now s)) sid code n = recentOutcomes (snd (updateMastery a now s)) sid code n"
  by (rule recentOutcomes_cong) (simp add: updateMastery_outcomes recordOutcome_tables)

lemma updateMastery_progress:
  "studentProgress (snd (updateMastery a now s)) =
     upsertProgress a now (masteryWindow (snd (updateMastery a now s)) (studentId a) (competenceCode a))
       (studentProgress s)"
  unfolding masteryWindow_def updateMastery_window [symmetric]
  by (simp add: updateMastery_def Let_def split_beta scheduleCard_tables recordOutcome_tables)


lemma filter_map_keys:
  assumes "\<And>r. P (f r) = P r"
  shows "filter P (map f xs) = map f (filter P xs)"
  using assms by (induction xs) auto

lemma progressRows_upsert:
  fixes a now w tbl
  defines "lvl \<equiv> masteryLevelOf (masteryPercentOf w (hintsUsed a)) (averageQualityOf w)"
  shows "\<exists>p rest. progressRows (upsertProgress a now w tbl) (studentId a) (competenceCode a) = p # rest
     \<and> sp_progressPercent p = masteryPercentOf w (hintsUsed a)
     \<and> sp_totalAttempts p = totalAttemptsOf w
     \<and> sp_successfulAttempts p = successfulAttemptsOf w
     \<and> sp_masteryLevel p = lvl
     \<and> sp_needsReview p = needsReviewOf (masteryPercentOf w (hintsUsed a)) (averageQualityOf w)
     \<and> sp_masteredAt p =
          (case progressRows tbl (studentId a) (competenceCode a) of
             [] \<Rightarrow> (if lvl = mastered then Some now else None)
           | prev # _ \<Rightarrow>
               (if lvl = mastered
                then (case sp_masteredAt prev of Some t \<Rightarrow> Some t | None \<Rightarrow> Some now)
                else sp_masteredAt prev))"
proof (cases "progressRows tbl (studentId a) (competenceCode a)")
  case Nil
  then show ?thesis
    by (simp add: upsertProgress_def Let_def lvl_def progressRows_def)
next
  case (Cons prev rest)
  then show ?thesis
    unfolding upsertProgress_def Let_def lvl_def progressRows_def
    by (simp add: filter_map_keys)
qed


lemma progressOf_updateMastery:
  fixes a now s
  defines "s' \<equiv> snd (updateMastery a now s)"
  defines "w \<equiv> masteryWindow s' (studentId a) (competenceCode a)"
  defines "lvl \<equiv> masteryLevelOf (masteryPercentOf w (hintsUsed a)) (averageQualityOf w)"
  shows "\<exists>p. progressOf s' (studentId a) (competenceCode a) = Some p
     \<and> sp_progressPercent p = masteryPercentOf w (hintsUsed a)
     \<and> sp_totalAttempts p = totalAttemptsOf w
     \<and> sp_successfulAttempts p = successfulAttemptsOf w
     \<and> sp_masteryLevel p = lvl
     \<and> sp_needsReview p = needsReviewOf (masteryPercentOf w (hintsUsed a)) (averageQualityOf w)
     \<and> sp_masteredAt p =
          (case progressOf s (studentId a) (competenceCode a) of
             None \<Rightarrow> (if lvl = mastered then Some now else None)
           | Some prev \<Rightarrow>
               (if lvl = mastered
                then (case sp_masteredAt prev of Some t \<Rightarrow> Some t | None \<Rightarrow> Some now)
                else sp_masteredAt prev))"
proof -
  obtain p rest where
    rows: "progressRows (upsertProgress a now w (studentProgress s)) (studentId a) (competenceCode a)
             = p # rest"
    and fields: "sp_progressPercent p = masteryPercentOf w (hintsUsed a)"
      "sp_totalAttempts p = totalAttemptsOf w"
      "sp_successfulAttempts p = successfulAttemptsOf w"
      "sp_masteryLevel p = lvl"
      "sp_needsReview p = needsReviewOf (masteryPercentOf w (hintsUsed a)) (averageQualityOf w)"
    and at: "sp_masteredAt p =
          (case progressRows (studentProgress s) (studentId a) (competenceCode a) of
             [] \<Rightarrow> (if lvl = mastered then Some now else None)
           | prev # _ \<Rightarrow>
               (if lvl = mastered
                then (case sp_masteredAt prev of Some t \<Rightarrow> Some t | None \<Rightarrow> Some now)
                else sp_masteredAt prev))"
    using progressRows_upsert [of a now w "studentProgress s"] unfolding lvl_def by blast
  have "progressOf s' (studentId a) (competenceCode a) = Some p"
    using rows by (simp add: progressOf_def s'_def updateMastery_progress w_def)
  moreover have "sp_masteredAt p =
          (case progressOf s (studentId a) (competenceCode a) of
             None \<Rightarrow> (if lvl = mastered then Some now else None)
           | Some prev \<Rightarrow>
               (if lvl = mastered
                then (case sp_masteredAt prev of Some t \<Rightarrow> Some t | None \<Rightarrow> Some now)
                else sp_masteredAt prev))"
    using at by (simp add: progressOf_def split: list.splits)
  ultimately show ?thesis using fields by blast
qed

subsection \<open>The aggregates and the window\<close>

lemma attempts_le: "successfulAttemptsOf w \<le> totalAttemptsOf w"
proof -
  have "length (filter oc_isCorrect w) \<le> length w" by (rule length_filter_le)
  then show ?thesis by (simp add: successfulAttemptsOf_def totalAttemptsOf_def)
qed

lemma totalAttemptsOf_max: "totalAttemptsOf w = max 1 (length w)"
  by (cases w) (simp_all add: totalAttemptsOf_def)

lemma masteryPercentOf_formula:
  "masteryPercentOf w hints =
     max 0 (min 100 (100 * real (successfulAttemptsOf w) / real (totalAttemptsOf w)
                     - min 10 (2 * real_of_int hints)))"
  by (simp add: masteryPercentOf_def Let_def mult.commute)

lemma masteryPercentOf_range: "0 \<le> masteryPercentOf w hints \<and> masteryPercentOf w hints \<le> 100"
  by (simp add: masteryPercentOf_def Let_def)

lemma recentOutcomes_newest_first:
  "sorted_wrt (\<lambda>x y. oc_attemptedAt x \<ge> oc_attemptedAt y) (recentOutcomes s sid code n)"
proof -
  let ?xs = "sort_key (\<lambda>r. - oc_attemptedAt r)
              (filter (\<lambda>r. oc_studentId r = sid \<and> oc_competenceCode r = code) (exerciseOutcomes s))"
  have "sorted (map (\<lambda>r. - oc_attemptedAt r) ?xs)" by (rule sorted_sort_key)
  then have "sorted_wrt (\<lambda>x y. oc_attemptedAt x \<ge> oc_attemptedAt y) ?xs"
    by (simp add: sorted_map)
  then show ?thesis unfolding recentOutcomes_def by (rule sorted_wrt_take)
qed

lemma recentOutcomes_most_recent:
  assumes "r \<in> set (exerciseOutcomes s)" "oc_studentId r = sid" "oc_competenceCode r = code"
    and "r \<notin> set (recentOutcomes s sid code n)" and "x \<in> set (recentOutcomes s sid code n)"
  shows "oc_attemptedAt r \<le> oc_attemptedAt x"
proof -
  let ?xs = "sort_key (\<lambda>r. - oc_attemptedAt r)
              (filter (\<lambda>r. oc_studentId r = sid \<and> oc_competenceCode r = code) (exerciseOutcomes s))"
  have "sorted (map (\<lambda>r. - oc_attemptedAt r) ?xs)" by (rule sorted_sort_key)
  then have "sorted_wrt (\<lambda>x y. oc_attemptedAt x \<ge> oc_attemptedAt y) (take n ?xs @ drop n ?xs)"
    by (simp add: sorted_map)
  then have *: "\<forall>x\<in>set (take n ?xs). \<forall>y\<in>set (drop n ?xs). oc_attemptedAt x \<ge> oc_attemptedAt y"
    unfolding sorted_wrt_append by blast
  have "r \<in> set ?xs" using assms(1-3) by simp
  then have "r \<in> set (take n ?xs) \<union> set (drop n ?xs)"
    by (metis append_take_drop_id set_append)
  with assms(4) have "r \<in> set (drop n ?xs)" by (simp add: recentOutcomes_def)
  with * assms(5) show ?thesis by (simp add: recentOutcomes_def)
qed

lemma window_after_update:
  "masteryWindow (snd (updateMastery a now s)) sid code =
     take 20 (sort_key (\<lambda>r. - oc_attemptedAt r)
       (filter (\<lambda>r. oc_studentId r = sid \<and> oc_competenceCode r = code)
          (exerciseOutcomes s @ [fst (recordOutcome a now s)])))"
  by (simp add: masteryWindow_def recentOutcomes_def updateMastery_outcomes)



subsection \<open>Doubles\<close>





lemma round_half_even_int: "round_half_even (of_int k) = k"
  by (simp add: round_half_even_def)

text \<open>The integers below \<open>2 ^ 53\<close> are doubles.\<close>

lemma binary64_int:
  assumes "\<bar>n\<bar> < 2 ^ 53"
  shows "binary64 (of_int n) = of_int n"
proof (cases "n = 0")
  case True
  then show ?thesis by (simp add: binary64_def)
next
  case False
  define e where "e = \<lfloor>log 2 \<bar>real_of_int n\<bar>\<rfloor>"
  have one: "1 \<le> \<bar>real_of_int n\<bar>" using False by (simp flip: of_int_abs)
  have lt: "\<bar>real_of_int n\<bar> < 2 ^ 53"
  proof -
    have "real_of_int \<bar>n\<bar> < real_of_int (2 ^ 53)" using assms by (simp only: of_int_less_iff)
    then show ?thesis by simp
  qed
  have "0 \<le> log 2 \<bar>real_of_int n\<bar>" using one by simp
  then have e0: "0 \<le> e" by (simp add: e_def)
  have "log 2 \<bar>real_of_int n\<bar> < 53"
    using lt one by (simp add: log_less_iff powr_realpow flip: powr_numeral)
  then have e52: "e \<le> 52" unfolding e_def by linarith
  define k where "k = nat (52 - e)"
  have u: "pow2 (e - 52) = 1 / 2 ^ k"
    using e52 by (cases "e = 52") (simp_all add: pow2_def k_def)
  have "real_of_int n / pow2 (e - 52) = of_int (n * 2 ^ k)" by (simp add: u)
  then have "round_half_even (real_of_int n / pow2 (e - 52)) = n * 2 ^ k"
    by (simp only: round_half_even_int)
  then have "binary64 (of_int n) = of_int (n * 2 ^ k) * pow2 (e - 52)"
    using False e0 by (simp add: binary64_def Let_def e_def [symmetric] max_def)
  also have "\<dots> = of_int n" by (simp add: u)
  finally show ?thesis .
qed

lemma binary64_numeral: "(numeral k :: int) < 2 ^ 53 \<Longrightarrow> binary64 (numeral k) = numeral k"
  using binary64_int [of "numeral k"] by simp

lemma binary64_zero: "binary64 0 = 0"
  by (simp add: binary64_def)





subsection \<open>The date of mastery\<close>

lemma masteredAt_kept:
  assumes "progressOf s (studentId a) (competenceCode a) = Some p" "sp_masteredAt p = Some t"
  shows "\<exists>p'. progressOf (snd (updateMastery a now s)) (studentId a) (competenceCode a) = Some p'
           \<and> sp_masteredAt p' = Some t"
  using progressOf_updateMastery [of a now s] assms by auto

lemma masteredAt_kept_all:
  assumes "list_all (\<lambda>(b, t). studentId b = sid \<and> competenceCode b = code) calls"
    and "progressOf s sid code = Some p" "sp_masteredAt p = Some t"
  shows "\<exists>p'. progressOf (updateMasteryAll calls s) sid code = Some p' \<and> sp_masteredAt p' = Some t"
  using assms
proof (induction calls arbitrary: s p)
  case Nil
  then show ?case by simp
next
  case (Cons c calls)
  obtain b u where c: "c = (b, u)" by (cases c)
  from Cons.prems(1) c have b: "studentId b = sid" "competenceCode b = code"
    and rest: "list_all (\<lambda>(b, t). studentId b = sid \<and> competenceCode b = code) calls"
    by simp_all
  from masteredAt_kept [of s b p t u] Cons.prems(2,3) b
  obtain p' where "progressOf (snd (updateMastery b u s)) sid code = Some p'"
    "sp_masteredAt p' = Some t" by auto
  from Cons.IH [OF rest this] show ?case by (simp add: c)
qed

lemma progressOf_updateMasteryAll_ex:
  assumes "list_all (\<lambda>(b, t). studentId b = sid \<and> competenceCode b = code) calls"
    and "progressOf s sid code = Some p"
  shows "\<exists>p'. progressOf (updateMasteryAll calls s) sid code = Some p'"
  using assms
proof (induction calls arbitrary: s p)
  case Nil
  then show ?case by simp
next
  case (Cons c calls)
  obtain b u where c: "c = (b, u)" by (cases c)
  from Cons.prems(1) c have b: "studentId b = sid" "competenceCode b = code"
    and rest: "list_all (\<lambda>(b, t). studentId b = sid \<and> competenceCode b = code) calls"
    by simp_all
  from progressOf_updateMastery [of b u s] b
  obtain p' where "progressOf (snd (updateMastery b u s)) sid code = Some p'" by auto
  from Cons.IH [OF rest this] show ?case by (simp add: c)
qed

lemma recordOutcome_fst:
  "fst (recordOutcome a now s) =
     \<lparr>oc_id = next_id (map oc_id (exerciseOutcomes s)),
      oc_studentId = studentId a, oc_exerciseId = exerciseId a,
      oc_competenceCode = competenceCode a, oc_isCorrect = isCorrect a,
      oc_hintsUsed = hintsUsed a, oc_timeSpentSec = timeSpentSec a,
      oc_quality = quality a, oc_errorTags = errorTags a, oc_attemptedAt = now\<rparr>"
  by (simp add: recordOutcome_def Let_def)

subsection \<open>Review cards\<close>

lemma fold_max_ge: "(a::nat) \<le> fold max xs a \<and> (\<forall>i\<in>set xs. i \<le> fold max xs a)"
proof (induction xs arbitrary: a)
  case Nil
  then show ?case by simp
next
  case (Cons x xs)
  from Cons.IH [of "max x a"] show ?case by auto
qed

lemma next_id_fresh: "i \<in> set ids \<Longrightarrow> i < next_id ids"
  using fold_max_ge [of 0 ids] by (auto simp add: next_id_def less_Suc_eq_le)

lemma map_unchanged: "(\<And>x. x \<in> set xs \<Longrightarrow> f x = x) \<Longrightarrow> map f xs = xs"
  by (induction xs) auto

text \<open>The schedule \<^verbatim>\<open>updateMastery\<close> writes on a card.\<close>

lemma scheduleCard_cards_cong:
  assumes "spacedRepetitionCards s = spacedRepetitionCards t"
  shows "spacedRepetitionCards (snd (scheduleCard a now s))
           = spacedRepetitionCards (snd (scheduleCard a now t))"
  using assms
  by (simp add: scheduleCard_def fetchOrCreateCard_def createCard_def updateCardSchedule_def
      cardRows_def Let_def split: list.splits)

lemma updateMastery_cards:
  "spacedRepetitionCards (snd (updateMastery a now s))
     = spacedRepetitionCards (snd (scheduleCard a now s))"
proof -
  have "spacedRepetitionCards (snd (updateMastery a now s))
     = spacedRepetitionCards (snd (scheduleCard a now
         ((snd (recordOutcome a now s))\<lparr>studentProgress :=
             upsertProgress a now
               (recentOutcomes (snd (recordOutcome a now s)) (studentId a) (competenceCode a) 20)
               (studentProgress (snd (recordOutcome a now s)))\<rparr>)))"
    by (simp add: updateMastery_def Let_def split_beta)
  also have "\<dots> = spacedRepetitionCards (snd (scheduleCard a now s))"
    by (rule scheduleCard_cards_cong) (simp add: recordOutcome_tables)
  finally show ?thesis .
qed


lemma createCard_fst:
  "fst (createCard sid code now s) =
     \<lparr>rc_id = next_id (map rc_id (spacedRepetitionCards s)),
      rc_studentId = sid, rc_competenceCode = code,
      rc_easinessFactor = 2.5, rc_repetitionNumber = 0, rc_intervalDays = 1,
      rc_lastReviewAt = now, rc_nextReviewAt = addDays now 1, rc_lastQuality = 0,
      rc_createdAt = now, rc_updatedAt = now\<rparr>"
  by (simp add: createCard_def Let_def)

lemma scheduleCard_fresh:
  fixes a now s
  defines "created \<equiv> fst (createCard (studentId a) (competenceCode a) now s)"
  defines "sm \<equiv> calculateNextReview created (quality a) now"
  assumes none: "cardRows s (studentId a) (competenceCode a) = []"
  shows "spacedRepetitionCards (snd (scheduleCard a now s)) =
     spacedRepetitionCards s @
       [created\<lparr>rc_nextReviewAt := sm_nextReviewDate sm, rc_intervalDays := sm_interval sm,
                rc_repetitionNumber := sm_repetitionNumber sm,
                rc_easinessFactor := sm_easinessFactor sm, rc_lastQuality := quality a,
                rc_lastReviewAt := now, rc_updatedAt := now\<rparr>]"
proof -
  have old: "rc_id c \<noteq> next_id (map rc_id (spacedRepetitionCards s))"
    if "c \<in> set (spacedRepetitionCards s)" for c
    using next_id_fresh [of "rc_id c" "map rc_id (spacedRepetitionCards s)"] that by auto
  have id: "rc_id created = next_id (map rc_id (spacedRepetitionCards s))"
    by (simp add: created_def createCard_fst)
  have fc: "fetchOrCreateCard a now s = createCard (studentId a) (competenceCode a) now s"
    by (simp add: fetchOrCreateCard_def none)
  have cs: "spacedRepetitionCards (snd (createCard (studentId a) (competenceCode a) now s))
              = spacedRepetitionCards s @ [created]"
    by (simp add: created_def createCard_def Let_def)
  show ?thesis
    unfolding scheduleCard_def fc Let_def split_beta snd_conv updateCardSchedule_def
      created_def [symmetric] sm_def [symmetric]
    by (simp add: cs id old map_unchanged)
qed

lemma scheduleCard_existing:
  fixes a now s c0 rest
  defines "sm \<equiv> calculateNextReview c0 (quality a) now"
  assumes some: "cardRows s (studentId a) (competenceCode a) = c0 # rest"
  shows "\<exists>rest'. cardRows (snd (scheduleCard a now s)) (studentId a) (competenceCode a) =
       c0\<lparr>rc_nextReviewAt := sm_nextReviewDate sm, rc_intervalDays := sm_interval sm,
           rc_repetitionNumber := sm_repetitionNumber sm,
           rc_easinessFactor := sm_easinessFactor sm, rc_lastQuality := quality a,
           rc_lastReviewAt := now, rc_updatedAt := now\<rparr> # rest'"
proof -
  have fc: "fetchOrCreateCard a now s = (c0, s)"
    by (simp add: fetchOrCreateCard_def some)
  from some have "filter (\<lambda>c. rc_studentId c = studentId a \<and> rc_competenceCode c = competenceCode a)
     (spacedRepetitionCards s) = c0 # rest" by (simp add: cardRows_def)
  then show ?thesis
    unfolding scheduleCard_def fc Let_def split_beta snd_conv fst_conv updateCardSchedule_def
      sm_def cardRows_def
    by (simp add: filter_map_keys)
qed

lemma cardOf_updateMastery:
  fixes a now s
  defines "c0 \<equiv> (case cardOf s (studentId a) (competenceCode a) of
                    Some c \<Rightarrow> c
                  | None \<Rightarrow> fst (createCard (studentId a) (competenceCode a) now s))"
  defines "sm \<equiv> calculateNextReview c0 (quality a) now"
  shows "\<exists>c. cardOf (snd (updateMastery a now s)) (studentId a) (competenceCode a) = Some c
     \<and> rc_easinessFactor c = sm_easinessFactor sm
     \<and> rc_repetitionNumber c = sm_repetitionNumber sm
     \<and> rc_intervalDays c = sm_interval sm
     \<and> rc_nextReviewAt c = sm_nextReviewDate sm
     \<and> rc_lastQuality c = quality a"
proof (cases "cardRows s (studentId a) (competenceCode a)")
  case Nil
  then have c0: "c0 = fst (createCard (studentId a) (competenceCode a) now s)"
    by (simp add: c0_def cardOf_def)
  have "cardRows (snd (updateMastery a now s)) (studentId a) (competenceCode a)
          = filter (\<lambda>c. rc_studentId c = studentId a \<and> rc_competenceCode c = competenceCode a)
              (spacedRepetitionCards (snd (scheduleCard a now s)))"
    by (simp add: cardRows_def updateMastery_cards)
  also have "\<dots> = [c0\<lparr>rc_nextReviewAt := sm_nextReviewDate sm, rc_intervalDays := sm_interval sm,
                rc_repetitionNumber := sm_repetitionNumber sm,
                rc_easinessFactor := sm_easinessFactor sm, rc_lastQuality := quality a,
                rc_lastReviewAt := now, rc_updatedAt := now\<rparr>]"
    using Nil unfolding scheduleCard_fresh [OF Nil] sm_def c0
    by (simp add: cardRows_def createCard_fst)
  finally show ?thesis by (simp add: cardOf_def)
next
  case (Cons c rest)
  then have c0: "c0 = c" by (simp add: c0_def cardOf_def)
  have eq: "cardRows (snd (updateMastery a now s)) (studentId a) (competenceCode a)
          = cardRows (snd (scheduleCard a now s)) (studentId a) (competenceCode a)"
    by (simp add: cardRows_def updateMastery_cards)
  from scheduleCard_existing [OF Cons, of now] show ?thesis
    unfolding eq [symmetric] sm_def c0 by (auto simp add: cardOf_def)
qed

lemma calculateNextReview_lapse:
  "q < 3 \<Longrightarrow> sm_repetitionNumber (calculateNextReview crd q now) = 0
     \<and> sm_interval (calculateNextReview crd q now) = 1
     \<and> sm_nextReviewDate (calculateNextReview crd q now) = now + 86400000"
  by (simp add: calculateNextReview_def Let_def addDays_def day_ms_def)

lemma updateMasteryAll_snoc:
  "updateMasteryAll (calls @ [(a, now)]) s = snd (updateMastery a now (updateMasteryAll calls s))"
  by (induction calls arbitrary: s) auto

lemma calculateNextReview_EF:
  "sm_easinessFactor (calculateNextReview crd q now)
     = max 1.3 (rc_easinessFactor crd + (0.1 - (5 - q) * (0.08 + (5 - q) * 0.02)))"
  by (simp add: calculateNextReview_def Let_def)

subsection \<open>Error patterns\<close>

lemma upsertErrorPattern_length: "length tbl \<le> length (upsertErrorPattern sid code now tag tbl)"
  by (simp add: upsertErrorPattern_def split: list.splits)

lemma fold_upsert_length:
  "length tbl \<le> length (fold (upsertErrorPattern sid code now) tags tbl)"
proof (induction tags arbitrary: tbl)
  case Nil
  then show ?case by simp
next
  case (Cons tag tags)
  have "length tbl \<le> length (upsertErrorPattern sid code now tag tbl)"
    by (rule upsertErrorPattern_length)
  also have "\<dots> \<le> length (fold (upsertErrorPattern sid code now) tags
                            (upsertErrorPattern sid code now tag tbl))"
    by (rule Cons.IH)
  finally show ?case by simp
qed

lemma upsertErrorPattern_seen:
  "\<exists>r\<in>set (upsertErrorPattern sid code now tag tbl).
      matchesPattern sid code tag r \<and> ep_lastSeenAt r = now"
proof (cases "filter (matchesPattern sid code tag) tbl")
  case Nil
  then show ?thesis by (simp add: upsertErrorPattern_def matchesPattern_def)
next
  case (Cons e rest)
  then have "e \<in> set (filter (matchesPattern sid code tag) tbl)" by simp
  then have e: "e \<in> set tbl" "matchesPattern sid code tag e" by simp_all
  let ?f = "\<lambda>r. if ep_id r = ep_id e
                 then r\<lparr>ep_occurrences := ep_occurrences e + 1, ep_lastSeenAt := now\<rparr> else r"
  have "?f e \<in> set (map ?f tbl)" using e(1) by (rule imageI [of e "set tbl" ?f, folded set_map])
  moreover have "matchesPattern sid code tag (?f e) \<and> ep_lastSeenAt (?f e) = now"
    using e(2) by (simp add: matchesPattern_def)
  ultimately show ?thesis unfolding upsertErrorPattern_def Cons by auto
qed

lemma upsertErrorPattern_keeps_seen:
  assumes "r \<in> set tbl" "matchesPattern sid code tag r" "ep_lastSeenAt r = now"
  shows "\<exists>r'\<in>set (upsertErrorPattern sid' code' now tag' tbl).
      matchesPattern sid code tag r' \<and> ep_lastSeenAt r' = now"
proof (cases "filter (matchesPattern sid' code' tag') tbl")
  case Nil
  then show ?thesis using assms by (auto simp add: upsertErrorPattern_def)
next
  case (Cons e rest)
  let ?f = "\<lambda>r. if ep_id r = ep_id e
                 then r\<lparr>ep_occurrences := ep_occurrences e + 1, ep_lastSeenAt := now\<rparr> else r"
  have "?f r \<in> set (map ?f tbl)" using assms(1) by (rule imageI [of r "set tbl" ?f, folded set_map])
  moreover have "matchesPattern sid code tag (?f r) \<and> ep_lastSeenAt (?f r) = now"
    using assms(2,3) by (simp add: matchesPattern_def)
  ultimately show ?thesis unfolding upsertErrorPattern_def Cons by auto
qed

lemma fold_upsert_keeps_seen:
  assumes "r \<in> set tbl" "matchesPattern sid code tag r" "ep_lastSeenAt r = now"
  shows "\<exists>r'\<in>set (fold (upsertErrorPattern sid' code' now) tags tbl).
      matchesPattern sid code tag r' \<and> ep_lastSeenAt r' = now"
  using assms
proof (induction tags arbitrary: tbl r)
  case Nil
  then show ?case by auto
next
  case (Cons t tags)
  from upsertErrorPattern_keeps_seen [OF Cons.prems, where sid' = sid' and code' = code' and tag' = t]
  obtain r' where "r' \<in> set (upsertErrorPattern sid' code' now t tbl)"
    "matchesPattern sid code tag r'" "ep_lastSeenAt r' = now" by blast
  from Cons.IH [OF this] show ?case by simp
qed

lemma fold_upsert_seen:
  assumes "tag \<in> set tags"
  shows "\<exists>r\<in>set (fold (upsertErrorPattern sid code now) tags tbl).
      matchesPattern sid code tag r \<and> ep_lastSeenAt r = now"
  using assms
proof (induction tags arbitrary: tbl)
  case Nil
  then show ?case by simp
next
  case (Cons t tags)
  show ?case
  proof (cases "tag = t")
    case True
    from upsertErrorPattern_seen [where sid = sid and code = code and tag = tag and now = now and tbl = tbl]
    obtain r where "r \<in> set (upsertErrorPattern sid code now tag tbl)"
      "matchesPattern sid code tag r" "ep_lastSeenAt r = now" by blast
    from fold_upsert_keeps_seen [OF this, where sid' = sid and code' = code and tags = tags]
    show ?thesis by (simp add: True)
  next
    case False
    with Cons.prems have "tag \<in> set tags" by simp
    from Cons.IH [OF this] show ?thesis by simp
  qed
qed


text \<open>With the ids of the table distinct (the primary key), one step of the loop adds one
  to the counter of its tag and changes no other counter.\<close>

lemma upsertErrorPattern_distinct:
  assumes "distinct (map ep_id tbl)"
  shows "distinct (map ep_id (upsertErrorPattern sid code now tag tbl))"
proof (cases "filter (matchesPattern sid code tag) tbl")
  case Nil
  have "next_id (map ep_id tbl) \<notin> set (map ep_id tbl)"
    using next_id_fresh [of "next_id (map ep_id tbl)" "map ep_id tbl"] by auto
  then show ?thesis using assms by (simp add: upsertErrorPattern_def Nil)
next
  case (Cons e rest)
  have "map ep_id (map (\<lambda>r. if ep_id r = ep_id e
          then r\<lparr>ep_occurrences := ep_occurrences e + 1, ep_lastSeenAt := now\<rparr> else r) tbl)
        = map ep_id tbl"
    by (induction tbl) auto
  then show ?thesis using assms unfolding upsertErrorPattern_def Cons list.case by (simp only:)
qed

lemma upsertErrorPattern_counter:
  assumes d: "distinct (map ep_id tbl)"
  shows "(case filter (matchesPattern sid' code' tag') (upsertErrorPattern sid code now tag tbl) of
            [] \<Rightarrow> 0 | e # _ \<Rightarrow> ep_occurrences e)
       = (case filter (matchesPattern sid' code' tag') tbl of [] \<Rightarrow> 0 | e # _ \<Rightarrow> ep_occurrences e)
         + (if sid' = sid \<and> code' = code \<and> tag' = tag then 1 else 0)"
proof (cases "filter (matchesPattern sid code tag) tbl")
  case Nil
  show ?thesis
  proof (cases "sid' = sid \<and> code' = code \<and> tag' = tag")
    case True
    then show ?thesis using Nil by (simp add: upsertErrorPattern_def matchesPattern_def)
  next
    case False
    then show ?thesis using Nil by (auto simp add: upsertErrorPattern_def matchesPattern_def)
  qed
next
  case (Cons e rest)
  let ?f = "\<lambda>r. if ep_id r = ep_id e
                 then r\<lparr>ep_occurrences := ep_occurrences e + 1, ep_lastSeenAt := now\<rparr> else r"
  from Cons have "e \<in> set (filter (matchesPattern sid code tag) tbl)" by simp
  then have e: "e \<in> set tbl" "matchesPattern sid code tag e" by simp_all
  have only: "?f r = r" if "r \<in> set tbl" "r \<noteq> e" for r
  proof -
    have "inj_on ep_id (set tbl)" using d by (simp add: distinct_map)
    with that e(1) have "ep_id r \<noteq> ep_id e" by (auto dest: inj_onD)
    then show ?thesis by simp
  qed
  have keys: "matchesPattern sid' code' tag' (?f r) = matchesPattern sid' code' tag' r" for r
    by (simp add: matchesPattern_def)
  have after: "filter (matchesPattern sid' code' tag') (upsertErrorPattern sid code now tag tbl)
                 = map ?f (filter (matchesPattern sid' code' tag') tbl)"
    unfolding upsertErrorPattern_def Cons list.case
    by (rule filter_map_keys [where P = "matchesPattern sid' code' tag'" and f = ?f, OF keys])
  show ?thesis
  proof (cases "sid' = sid \<and> code' = code \<and> tag' = tag")
    case True
    then show ?thesis unfolding after using Cons by simp
  next
    case False
    have "r \<noteq> e" if "r \<in> set (filter (matchesPattern sid' code' tag') tbl)" for r
      using that e(2) False by (auto simp add: matchesPattern_def)
    then have "map ?f (filter (matchesPattern sid' code' tag') tbl)
                 = filter (matchesPattern sid' code' tag') tbl"
      using only by (intro map_unchanged) auto
    then show ?thesis unfolding after using False by simp
  qed
qed

lemma fold_upsert_counter:
  assumes "distinct (map ep_id tbl)"
  shows "distinct (map ep_id (fold (upsertErrorPattern sid code now) tags tbl))
     \<and> (case filter (matchesPattern sid' code' tag')
                (fold (upsertErrorPattern sid code now) tags tbl) of
            [] \<Rightarrow> 0 | e # _ \<Rightarrow> ep_occurrences e)
       = (case filter (matchesPattern sid' code' tag') tbl of [] \<Rightarrow> 0 | e # _ \<Rightarrow> ep_occurrences e)
         + (if sid' = sid \<and> code' = code then int (count_list tags tag') else 0)"
  using assms
proof (induction tags arbitrary: tbl)
  case Nil
  then show ?case by simp
next
  case (Cons t tags)
  have d: "distinct (map ep_id (upsertErrorPattern sid code now t tbl))"
    using Cons.prems by (rule upsertErrorPattern_distinct)
  from Cons.IH [OF d] upsertErrorPattern_counter [OF Cons.prems, of sid' code' tag' sid code now t]
  show ?case by auto
qed

subsection \<open>Curriculum lookups, blocking and recommendations\<close>

lemma getCE1CompetenceByCode_None: "getCE1CompetenceByCode fw code = None"
  by (simp add: getCE1CompetenceByCode_def Let_def)

lemma isBlocked_loop:
  "fold (\<lambda>prereqCode (blocking, missing).
           if P prereqCode then (blocking @ [prereqCode], missing @ [prereqCode])
           else (blocking, missing)) ps (bs, ms)
     = (bs @ filter P ps, ms @ filter P ps)"
  by (induction ps arbitrary: bs ms) auto

lemma isBlocked_filter:
  "isBlocked cur s sid code =
     \<lparr>br_isBlocked = (filter (notMastered s sid) (getPrerequisites cur s code) \<noteq> []),
      br_blockingPrerequisites = filter (notMastered s sid) (getPrerequisites cur s code),
      br_missingPrerequisites = filter (notMastered s sid) (getPrerequisites cur s code)\<rparr>"
  by (simp add: isBlocked_def Let_def isBlocked_loop)

lemma dedup_fold:
  "distinct acc \<Longrightarrow>
     set (fold (\<lambda>x acc. if x \<in> set acc then acc else acc @ [x]) xs acc) = set acc \<union> set xs
     \<and> distinct (fold (\<lambda>x acc. if x \<in> set acc then acc else acc @ [x]) xs acc)"
  by (induction xs arbitrary: acc) auto

lemma dedup_set: "set (dedup xs) = set xs" and dedup_distinct: "distinct (dedup xs)"
  using dedup_fold [of "[]" xs] by (simp_all add: dedup_def)

lemma progressMap_None:
  "progressMap (filter (\<lambda>p. sp_studentId p = sid) tbl) code = None
     \<longleftrightarrow> progressRows tbl sid code = []"
proof -
  have "progressMap (filter (\<lambda>p. sp_studentId p = sid) tbl) code = None
     \<longleftrightarrow> code \<notin> sp_competenceCode ` set (filter (\<lambda>p. sp_studentId p = sid) tbl)"
    by (simp add: progressMap_def map_of_eq_None_iff image_image)
  also have "\<dots> \<longleftrightarrow> progressRows tbl sid code = []"
    by (auto simp add: progressRows_def filter_empty_conv)
  finally show ?thesis .
qed

lemma progressOf_None: "progressOf s sid code = None \<longleftrightarrow> progressRows (studentProgress s) sid code = []"
  by (simp add: progressOf_def split: list.splits)

lemma getRecommendations_sorted:
  "sorted_wrt (\<lambda>x y. priorityOrder (r_priority x) \<ge> priorityOrder (r_priority y))
     (getRecommendations cur s sid niv)"
proof -
  have "sorted (map (\<lambda>r. - priorityOrder (r_priority r)) (sort_key (\<lambda>r. - priorityOrder (r_priority r)) xs))"
    for xs :: "recommendation list"
    by (rule sorted_sort_key)
  then have "sorted_wrt (\<lambda>x y. priorityOrder (r_priority x) \<ge> priorityOrder (r_priority y))
               (sort_key (\<lambda>r. - priorityOrder (r_priority r)) xs)" for xs :: "recommendation list"
    by (simp add: sorted_map)
  then show ?thesis by (simp add: getRecommendations_def Let_def)
qed

text \<open>What \<^verbatim>\<open>isBlocked\<close> computes from the prerequisites \<^verbatim>\<open>getPrerequisites\<close> finds: the
  database edges and the prerequisites of the competence \<^verbatim>\<open>getCompetenceByCode\<close> resolves.\<close>

lemma getPrerequisites_set:
  "set (getPrerequisites cur s code) =
     cp_prerequisiteCode ` {p \<in> set (competencePrerequisites s). cp_competenceCode p = code}
     \<union> (case getCompetenceByCode cur code of Some c \<Rightarrow> set (u_prerequis c) | None \<Rightarrow> {})"
  by (auto simp add: getPrerequisites_def Let_def dedup_set split: option.splits)

lemma getPrerequisites_distinct: "distinct (getPrerequisites cur s code)"
  by (simp add: getPrerequisites_def Let_def dedup_distinct)

lemma isBlocked_characterisation:
  "br_isBlocked (isBlocked cur s sid code)
     \<longleftrightarrow> (\<exists>p\<in>set (getPrerequisites cur s code). notMastered s sid p)"
  "br_blockingPrerequisites (isBlocked cur s sid code)
     = filter (notMastered s sid) (getPrerequisites cur s code)"
  "br_missingPrerequisites (isBlocked cur s sid code)
     = filter (notMastered s sid) (getPrerequisites cur s code)"
  by (auto simp add: isBlocked_filter filter_empty_conv)

lemma notMastered_iff:
  "notMastered s sid p \<longleftrightarrow>
     (case progressOf s sid p of None \<Rightarrow> True | Some r \<Rightarrow> sp_masteryLevel r \<noteq> mastered)"
  by (simp add: notMastered_def progressOf_def split: list.splits)

text \<open>The sibling lookups resolve their codes: a code of the CP table or of the CE2
  framework brings its declared prerequisites.\<close>

lemma getPrerequisites_cp:
  assumes "map_of (cpCompetences cur) code = Some d" "cp_prerequis d = Some ps"
  shows "set ps \<subseteq> set (getPrerequisites cur s code)"
  using assms by (auto simp add: getPrerequisites_set getCompetenceByCode_def unifiedCP_def)

lemma getPrerequisites_ce2:
  assumes "map_of (cpCompetences cur) code = None"
    "ce2_getCompetenceByCode (ce2Competences cur) code = Some c"
  shows "set (ce2_prerequis_ce1 c) \<subseteq> set (getPrerequisites cur s code)"
  using assms
  by (auto simp add: getPrerequisites_set getCompetenceByCode_def getCE1CompetenceByCode_None
      unifiedCE2_def)

lemma getPrerequisites_ce1:
  assumes "map_of (cpCompetences cur) code = None"
    "ce2_getCompetenceByCode (ce2Competences cur) code = None"
  shows "getPrerequisites cur s code
     = dedup (map cp_prerequisiteCode
         (filter (\<lambda>p. cp_competenceCode p = code) (competencePrerequisites s)))"
  using assms
  by (simp add: getPrerequisites_def getCompetenceByCode_def getCE1CompetenceByCode_None Let_def)

text \<open>\<^verbatim>\<open>Array.join\<close> keeps every element.\<close>

lemma join_contains: "m \<in> set ms \<Longrightarrow> \<exists>u v. join ms sep = u @ m @ v"
proof (induction ms sep rule: join.induct)
  case (1 sep)
  then show ?case by simp
next
  case (2 x sep)
  then have "join [x] sep = [] @ m @ []" by simp
  then show ?case by blast
next
  case (3 x y ys sep)
  show ?case
  proof (cases "m = x")
    case True
    then have "join (x # y # ys) sep = [] @ m @ (sep @ join (y # ys) sep)" by simp
    then show ?thesis by blast
  next
    case False
    with "3.prems" have "m \<in> set (y # ys)" by simp
    from "3.IH" [OF this] obtain u v where "join (y # ys) sep = u @ m @ v" by blast
    then have "join (x # y # ys) sep = (x @ sep @ u) @ m @ v" by simp
    then show ?thesis by blast
  qed
qed

text \<open>What \<^verbatim>\<open>getRecommendations\<close> returns, with \<^verbatim>\<open>isBlocked\<close> as it is: the review entries,
  an entry for every competence of the level without a progress row, whose reason, when
  \<^verbatim>\<open>isBlocked\<close> reports the learner blocked, holds the code of every missing prerequisite;
  no entry of a lower priority comes before one of a higher priority.\<close>

lemma getRecommendations_entries:
  fixes cur s sid niv
  defines "recs \<equiv> getRecommendations cur s sid niv"
  shows "(\<forall>p\<in>set (studentProgress s). sp_studentId p = sid \<and> sp_needsReview p \<longrightarrow>
            \<lparr>r_priority = high, r_competenceCode = sp_competenceCode p,
             r_reason = ''Besoin de r'' @ [CHR 0xC3, CHR 0xA9] @ ''vision - performance faible'',
             r_type = review\<rparr> \<in> set recs)
     \<and> (\<forall>c\<in>set (getCompetencesByLevel cur niv). progressOf s sid (u_code c) = None \<longrightarrow>
           (if br_isBlocked (isBlocked cur s sid (u_code c))
            then \<exists>reason.
                   \<lparr>r_priority = low, r_competenceCode = u_code c, r_reason = reason,
                    r_type = prerequisite\<rparr> \<in> set recs
                   \<and> reason = ''Pr'' @ [CHR 0xC3, CHR 0xA9] @ ''requis manquants: ''
                        @ join (br_missingPrerequisites (isBlocked cur s sid (u_code c))) '', ''
                   \<and> (\<forall>m\<in>set (br_missingPrerequisites (isBlocked cur s sid (u_code c))).
                         \<exists>u v. reason = u @ m @ v)
            else \<lparr>r_priority = medium, r_competenceCode = u_code c,
                  r_reason = ''Nouvelle comp'' @ [CHR 0xC3, CHR 0xA9] @ ''tence disponible'',
                  r_type = new\<rparr> \<in> set recs))
     \<and> sorted_wrt (\<lambda>x y. (r_priority y = high \<longrightarrow> r_priority x = high)
                         \<and> (r_priority x = low \<longrightarrow> r_priority y = low)) recs"
proof -
  have reviews: "\<lparr>r_priority = high, r_competenceCode = sp_competenceCode p,
             r_reason = ''Besoin de r'' @ [CHR 0xC3, CHR 0xA9] @ ''vision - performance faible'',
             r_type = review\<rparr> \<in> set recs"
    if "p \<in> set (studentProgress s)" "sp_studentId p = sid" "sp_needsReview p" for p
  proof -
    from that have "p \<in> set (filter sp_needsReview (filter (\<lambda>p. sp_studentId p = sid) (studentProgress s)))"
      by simp
    then show ?thesis
      unfolding recs_def getRecommendations_def Let_def set_sort set_append set_map reason_review_def
      by blast
  qed
  have news: "if br_isBlocked (isBlocked cur s sid (u_code c))
            then \<exists>reason.
                   \<lparr>r_priority = low, r_competenceCode = u_code c, r_reason = reason,
                    r_type = prerequisite\<rparr> \<in> set recs
                   \<and> reason = ''Pr'' @ [CHR 0xC3, CHR 0xA9] @ ''requis manquants: ''
                        @ join (br_missingPrerequisites (isBlocked cur s sid (u_code c))) '', ''
                   \<and> (\<forall>m\<in>set (br_missingPrerequisites (isBlocked cur s sid (u_code c))).
                         \<exists>u v. reason = u @ m @ v)
            else \<lparr>r_priority = medium, r_competenceCode = u_code c,
                  r_reason = ''Nouvelle comp'' @ [CHR 0xC3, CHR 0xA9] @ ''tence disponible'',
                  r_type = new\<rparr> \<in> set recs"
    if c: "c \<in> set (getCompetencesByLevel cur niv)" and none: "progressOf s sid (u_code c) = None" for c
  proof -
    let ?missing = "br_missingPrerequisites (isBlocked cur s sid (u_code c))"
    from none have pm: "progressMap (filter (\<lambda>p. sp_studentId p = sid) (studentProgress s)) (u_code c) = None"
      by (simp add: progressMap_None progressOf_None)
    have entry: "if br_isBlocked (isBlocked cur s sid (u_code c))
            then \<lparr>r_priority = low, r_competenceCode = u_code c,
                  r_reason = reason_missing ?missing, r_type = prerequisite\<rparr> \<in> set recs
            else \<lparr>r_priority = medium, r_competenceCode = u_code c,
                  r_reason = reason_new, r_type = new\<rparr> \<in> set recs"
      unfolding recs_def getRecommendations_def Let_def set_sort set_append set_concat set_map
      using c pm by (auto intro!: bexI [of _ c])
    have listed: "\<exists>u v. reason_missing ?missing = u @ m @ v" if "m \<in> set ?missing" for m
    proof -
      from join_contains [OF that, of "'', ''"] obtain u v
        where "join ?missing '', '' = u @ m @ v" by blast
      then have "reason_missing ?missing
                   = (''Pr'' @ [CHR 0xC3, CHR 0xA9] @ ''requis manquants: '' @ u) @ m @ v"
        by (simp add: reason_missing_def)
      then show ?thesis by blast
    qed
    show ?thesis
    proof (cases "br_isBlocked (isBlocked cur s sid (u_code c))")
      case True
      with entry have "\<lparr>r_priority = low, r_competenceCode = u_code c,
                  r_reason = reason_missing ?missing, r_type = prerequisite\<rparr> \<in> set recs" by simp
      moreover have "reason_missing ?missing = ''Pr'' @ [CHR 0xC3, CHR 0xA9] @ ''requis manquants: ''
                        @ join ?missing '', ''"
        by (simp add: reason_missing_def)
      ultimately show ?thesis using True listed by auto
    next
      case False
      with entry show ?thesis by (simp add: reason_new_def)
    qed
  qed
  have "sorted_wrt (\<lambda>x y. priorityOrder (r_priority x) \<ge> priorityOrder (r_priority y)) recs"
    unfolding recs_def by (rule getRecommendations_sorted)
  moreover have "(r_priority y = high \<longrightarrow> r_priority x = high)
                   \<and> (r_priority x = low \<longrightarrow> r_priority y = low)"
    if "priorityOrder (r_priority x) \<ge> priorityOrder (r_priority y)" for x y :: recommendation
    using that by (cases "r_priority x"; cases "r_priority y") simp_all
  ultimately have "sorted_wrt (\<lambda>x y. (r_priority y = high \<longrightarrow> r_priority x = high)
                         \<and> (r_priority x = low \<longrightarrow> r_priority y = low)) recs"
    by (rule sorted_wrt_mono_rel [rotated]) blast
  with reviews news show ?thesis by blast
qed

section \<open>The claims\<close>

text \<open>
  Claim C1. After every call of \<^verbatim>\<open>updateMastery\<close> the progress row of the pair of the call
  holds aggregates recomputed from the window \<open>w\<close> of the call: \<open>w\<close> has at most twenty
  outcomes, all of the pair, newest first, and no outcome of the pair outside \<open>w\<close> is newer
  than one inside; \<open>totalAttempts = max 1 (length w)\<close>; \<open>successfulAttempts\<close> is the
  number of correct outcomes of \<open>w\<close>; \<open>progressPercent\<close> is
  \<open>100 * successfulAttempts / totalAttempts - min 10 (2 * hintsUsed)\<close> clamped to
  \<open>[0, 100]\<close>, with the \<open>hintsUsed\<close> of the attempt just recorded. Hence
  \<open>progressPercent\<close> lies in \<open>[0, 100]\<close> and \<open>successfulAttempts \<le> totalAttempts\<close>.
\<close>

theorem updateMastery_aggregates:
  fixes a now s
  defines "s' \<equiv> snd (updateMastery a now s)"
  defines "w \<equiv> masteryWindow s' (studentId a) (competenceCode a)"
  shows "\<exists>p. progressOf s' (studentId a) (competenceCode a) = Some p
     \<and> length w \<le> 20
     \<and> set w \<subseteq> set (exerciseOutcomes s')
     \<and> list_all (\<lambda>r. oc_studentId r = studentId a \<and> oc_competenceCode r = competenceCode a) w
     \<and> sorted_wrt (\<lambda>x y. oc_attemptedAt x \<ge> oc_attemptedAt y) w
     \<and> (\<forall>r x. r \<in> set (exerciseOutcomes s') \<and> oc_studentId r = studentId a
               \<and> oc_competenceCode r = competenceCode a \<and> r \<notin> set w \<and> x \<in> set w
            \<longrightarrow> oc_attemptedAt r \<le> oc_attemptedAt x)
     \<and> sp_totalAttempts p = max 1 (length w)
     \<and> sp_successfulAttempts p = length (filter oc_isCorrect w)
     \<and> sp_progressPercent p =
          max 0 (min 100 (100 * real (sp_successfulAttempts p) / real (sp_totalAttempts p)
                          - min 10 (2 * real_of_int (hintsUsed a))))
     \<and> 0 \<le> sp_progressPercent p \<and> sp_progressPercent p \<le> 100
     \<and> sp_successfulAttempts p \<le> sp_totalAttempts p"
proof -
  obtain p where p: "progressOf s' (studentId a) (competenceCode a) = Some p"
    and pp: "sp_progressPercent p = masteryPercentOf w (hintsUsed a)"
    and ta: "sp_totalAttempts p = totalAttemptsOf w"
    and sa: "sp_successfulAttempts p = successfulAttemptsOf w"
    using progressOf_updateMastery [of a now s] unfolding s'_def w_def by blast
  have len: "length w \<le> 20" by (simp add: w_def masteryWindow_def recentOutcomes_def)
  have sub: "set w \<subseteq> set (exerciseOutcomes s')"
    unfolding w_def masteryWindow_def recentOutcomes_def
    using set_take_subset [of 20] by fastforce
  have pair: "list_all (\<lambda>r. oc_studentId r = studentId a \<and> oc_competenceCode r = competenceCode a) w"
    unfolding w_def masteryWindow_def recentOutcomes_def list_all_iff
    using set_take_subset [of 20] by fastforce
  have srt: "sorted_wrt (\<lambda>x y. oc_attemptedAt x \<ge> oc_attemptedAt y) w"
    unfolding w_def masteryWindow_def by (rule recentOutcomes_newest_first)
  have recent: "\<forall>r x. r \<in> set (exerciseOutcomes s') \<and> oc_studentId r = studentId a
               \<and> oc_competenceCode r = competenceCode a \<and> r \<notin> set w \<and> x \<in> set w
            \<longrightarrow> oc_attemptedAt r \<le> oc_attemptedAt x"
    unfolding w_def masteryWindow_def using recentOutcomes_most_recent by blast
  have f1: "sp_totalAttempts p = max 1 (length w)" by (simp add: ta totalAttemptsOf_max)
  have f2: "sp_successfulAttempts p = length (filter oc_isCorrect w)"
    by (simp add: sa successfulAttemptsOf_def)
  have f3: "sp_progressPercent p =
          max 0 (min 100 (100 * real (sp_successfulAttempts p) / real (sp_totalAttempts p)
                          - min 10 (2 * real_of_int (hintsUsed a))))"
    unfolding pp ta sa by (rule masteryPercentOf_formula)
  have f4: "0 \<le> sp_progressPercent p \<and> sp_progressPercent p \<le> 100"
    unfolding pp by (rule masteryPercentOf_range)
  have f5: "sp_successfulAttempts p \<le> sp_totalAttempts p"
    unfolding ta sa by (rule attempts_le)
  from p len sub pair srt recent f1 f2 f3 f4 f5 show ?thesis by blast
qed

theorem updateMastery_aggregates_witness:
  "\<exists>p. progressOf (snd (updateMastery (example_attempt True 1 4) 1000 empty_db)) 1 ''CP.FR.L1.1'' = Some p
      \<and> sp_totalAttempts p = 1 \<and> sp_successfulAttempts p = 1 \<and> sp_progressPercent p = 98"
proof -
  let ?a = "example_attempt True 1 4"
  have w: "masteryWindow (snd (updateMastery ?a 1000 empty_db)) 1 ''CP.FR.L1.1''

             = [fst (recordOutcome ?a 1000 empty_db)]"
    by (simp add: window_after_update empty_db_def example_attempt_def recordOutcome_def Let_def)
  have c: "oc_isCorrect (fst (recordOutcome ?a 1000 empty_db))"
    by (simp add: example_attempt_def recordOutcome_def Let_def)
  have h: "hintsUsed ?a = 1" "studentId ?a = 1" "competenceCode ?a = ''CP.FR.L1.1''"
    by (simp_all add: example_attempt_def)
  from updateMastery_aggregates [of ?a 1000 empty_db]
  show ?thesis unfolding h w by (auto simp add: c)
qed



text \<open>
  Claim C4. \<^verbatim>\<open>masteredAt\<close> is sticky. A call of \<^verbatim>\<open>updateMastery\<close> leaves the date of the
  progress row of its pair as it was when it was set; when it was not set (or there was no
  row) the call sets it to the time of the call if the new level is \<open>mastered\<close>, and
  leaves it unset otherwise. Once set, no sequence of later calls for the same pair clears
  or changes it, whatever their outcomes and whatever level they lead to.
\<close>

theorem masteredAt_sticky:
  fixes a now s calls
  defines "s1 \<equiv> snd (updateMastery a now s)"
  defines "previous \<equiv> (case progressOf s (studentId a) (competenceCode a) of
                          None \<Rightarrow> None | Some prev \<Rightarrow> sp_masteredAt prev)"
  assumes same_pair:
    "list_all (\<lambda>(b, t). studentId b = studentId a \<and> competenceCode b = competenceCode a) calls"
  shows "\<exists>p1 pn. progressOf s1 (studentId a) (competenceCode a) = Some p1
     \<and> sp_masteredAt p1 =
          (case previous of
             Some t \<Rightarrow> Some t
           | None \<Rightarrow> if sp_masteryLevel p1 = mastered then Some now else None)
     \<and> progressOf (updateMasteryAll calls s1) (studentId a) (competenceCode a) = Some pn
     \<and> (sp_masteredAt p1 \<noteq> None \<longrightarrow> sp_masteredAt pn = sp_masteredAt p1)"
proof -
  obtain p1 where p1: "progressOf s1 (studentId a) (competenceCode a) = Some p1"
    and at: "sp_masteredAt p1 =
          (case previous of
             Some t \<Rightarrow> Some t
           | None \<Rightarrow> if sp_masteryLevel p1 = mastered then Some now else None)"
    using progressOf_updateMastery [of a now s] unfolding s1_def previous_def
    by (auto split: option.splits)
  obtain pn where pn: "progressOf (updateMasteryAll calls s1) (studentId a) (competenceCode a) = Some pn"
    using progressOf_updateMasteryAll_ex [OF same_pair p1] by blast
  have "sp_masteredAt pn = sp_masteredAt p1" if "sp_masteredAt p1 \<noteq> None"
  proof -
    from that obtain t where t: "sp_masteredAt p1 = Some t" by auto
    from masteredAt_kept_all [OF same_pair p1 t] pn show ?thesis by (simp add: t)
  qed
  with p1 at pn show ?thesis by blast
qed


theorem masteredAt_sticky_witness:
  "\<exists>pn. progressOf (updateMasteryAll [(example_attempt False 0 0, 2000), (example_attempt False 0 0, 3000)]
              (snd (updateMastery (example_attempt True 0 5) 1000 empty_db))) 1 ''CP.FR.L1.1'' = Some pn
        \<and> sp_masteredAt pn = Some 1000 \<and> sp_masteryLevel pn = not_started"
proof -
  let ?a1 = "example_attempt True 0 5" and ?a2 = "example_attempt False 0 0"
  let ?s1 = "snd (updateMastery ?a1 1000 empty_db)"
  let ?s2 = "snd (updateMastery ?a2 2000 ?s1)"
  let ?s3 = "snd (updateMastery ?a2 3000 ?s2)"
  have ids: "studentId ?a1 = 1" "competenceCode ?a1 = ''CP.FR.L1.1''"
    "studentId ?a2 = 1" "competenceCode ?a2 = ''CP.FR.L1.1''" "hintsUsed ?a1 = 0" "hintsUsed ?a2 = 0"
    by (simp_all add: example_attempt_def)
  have fresh: "progressOf empty_db 1 ''CP.FR.L1.1'' = None"
    by (simp add: progressOf_def progressRows_def empty_db_def)
  have lvl1: "masteryLevelOf (masteryPercentOf (masteryWindow ?s1 1 ''CP.FR.L1.1'') 0)
                (averageQualityOf (masteryWindow ?s1 1 ''CP.FR.L1.1'')) = mastered"
    by (simp add: window_after_update recordOutcome_fst empty_db_def example_attempt_def
        masteryLevelOf_def masteryPercentOf_def averageQualityOf_def totalAttemptsOf_def
        successfulAttemptsOf_def Let_def binary64_numeral binary64_zero)
  have lvl3: "masteryLevelOf (masteryPercentOf (masteryWindow ?s3 1 ''CP.FR.L1.1'') 0)
                (averageQualityOf (masteryWindow ?s3 1 ''CP.FR.L1.1'')) = not_started"
    by (simp add: window_after_update updateMastery_outcomes recordOutcome_fst empty_db_def
        example_attempt_def masteryLevelOf_def masteryPercentOf_def totalAttemptsOf_def
        successfulAttemptsOf_def Let_def)
  have calls: "list_all (\<lambda>(b, t). studentId b = studentId ?a1 \<and> competenceCode b = competenceCode ?a1)
                 [(?a2, 2000), (?a2, 3000)]"
    by (simp add: example_attempt_def)
  from masteredAt_sticky [OF calls, of 1000 empty_db]
  obtain p1 pn where p1: "progressOf ?s1 1 ''CP.FR.L1.1'' = Some p1"
    and at1: "sp_masteredAt p1 = (if sp_masteryLevel p1 = mastered then Some 1000 else None)"
    and pn: "progressOf ?s3 1 ''CP.FR.L1.1'' = Some pn"
    and keep: "sp_masteredAt p1 \<noteq> None \<longrightarrow> sp_masteredAt pn = sp_masteredAt p1"
    unfolding ids by (auto simp add: fresh)
  from progressOf_updateMastery [of ?a1 1000 empty_db] p1
  have "sp_masteryLevel p1 = mastered" unfolding ids by (simp add: lvl1)
  with at1 keep have "sp_masteredAt pn = Some 1000" by simp
  moreover from progressOf_updateMastery [of ?a2 3000 ?s2] pn
  have "sp_masteryLevel pn = not_started" unfolding ids by (simp add: lvl3)
  ultimately show ?thesis using pn by simp
qed

text \<open>
  Claim C7. When \<^verbatim>\<open>updateMastery\<close> runs for a pair that has no review card, exactly one card
  is added to the table, and it is the only card of the pair. The card is created, before
  the scheduling, with the easiness factor \<open>2.5\<close>, the repetition number \<open>0\<close>, an interval
  of one day and a next review one day (\<open>86400000\<close> milliseconds) after \<open>now\<close>; the stored
  card is the created one with the schedule computed from it. With the quality \<open>2\<close> the
  stored card has the repetition number \<open>0\<close>, an interval of one day and its next review
  one day after \<open>now\<close>. The card creation is the code of \<^verbatim>\<open>ReviewQueueRepo\<close>; the schedule
  is \<^verbatim>\<open>calculateNextReview\<close> as the specification gives it.
\<close>

theorem fresh_pair_card:
  fixes a now s
  defines "s' \<equiv> snd (updateMastery a now s)"
  defines "created \<equiv> fst (createCard (studentId a) (competenceCode a) now s)"
  defines "sm \<equiv> calculateNextReview created (quality a) now"
  assumes no_card: "cardOf s (studentId a) (competenceCode a) = None"
  shows "\<exists>c. rc_studentId created = studentId a \<and> rc_competenceCode created = competenceCode a
     \<and> rc_easinessFactor created = 2.5 \<and> rc_repetitionNumber created = 0
     \<and> rc_intervalDays created = 1 \<and> rc_nextReviewAt created = now + 86400000
     \<and> spacedRepetitionCards s' = spacedRepetitionCards s @ [c]
     \<and> cardRows s' (studentId a) (competenceCode a) = [c]
     \<and> c = created\<lparr>rc_nextReviewAt := sm_nextReviewDate sm, rc_intervalDays := sm_interval sm,
                    rc_repetitionNumber := sm_repetitionNumber sm,
                    rc_easinessFactor := sm_easinessFactor sm, rc_lastQuality := quality a,
                    rc_lastReviewAt := now, rc_updatedAt := now\<rparr>
     \<and> (quality a = 2 \<longrightarrow>
           rc_repetitionNumber c = 0 \<and> rc_intervalDays c = 1
           \<and> rc_nextReviewAt c = now + 86400000)"
proof -
  let ?c = "created\<lparr>rc_nextReviewAt := sm_nextReviewDate sm, rc_intervalDays := sm_interval sm,
                    rc_repetitionNumber := sm_repetitionNumber sm,
                    rc_easinessFactor := sm_easinessFactor sm, rc_lastQuality := quality a,
                    rc_lastReviewAt := now, rc_updatedAt := now\<rparr>"
  from no_card have none: "cardRows s (studentId a) (competenceCode a) = []"
    by (simp add: cardOf_def split: list.splits)
  have defaults: "rc_studentId created = studentId a" "rc_competenceCode created = competenceCode a"
    "rc_easinessFactor created = 2.5" "rc_repetitionNumber created = 0"
    "rc_intervalDays created = 1" "rc_nextReviewAt created = now + 86400000"
    by (simp_all add: created_def createCard_fst addDays_def day_ms_def)
  have cards: "spacedRepetitionCards s' = spacedRepetitionCards s @ [?c]"
    unfolding s'_def updateMastery_cards sm_def created_def
    by (rule scheduleCard_fresh [OF none])
  have rows: "cardRows s' (studentId a) (competenceCode a) = [?c]"
    using none by (simp add: cardRows_def cards defaults)
  have lapse: "quality a = 2 \<longrightarrow>
           rc_repetitionNumber ?c = 0 \<and> rc_intervalDays ?c = 1
           \<and> rc_nextReviewAt ?c = now + 86400000"
  proof
    assume q: "quality a = 2"
    then have "quality a < 3" by simp
    from calculateNextReview_lapse [OF this, of created now]
    show "rc_repetitionNumber ?c = 0 \<and> rc_intervalDays ?c = 1
           \<and> rc_nextReviewAt ?c = now + 86400000"
      by (simp add: sm_def)
  qed
  from defaults cards rows lapse show ?thesis by blast
qed

theorem fresh_pair_card_witness:
  "\<exists>c. cardRows (snd (updateMastery (example_attempt False 0 2) 1000 empty_db)) 1 ''CP.FR.L1.1'' = [c]
      \<and> spacedRepetitionCards (snd (updateMastery (example_attempt False 0 2) 1000 empty_db)) = [c]
      \<and> rc_repetitionNumber c = 0 \<and> rc_intervalDays c = 1 \<and> rc_nextReviewAt c = 86401000"
proof -
  let ?a = "example_attempt False 0 2"
  have h: "cardOf empty_db (studentId ?a) (competenceCode ?a) = None"
    by (simp add: cardOf_def cardRows_def empty_db_def)
  have e: "spacedRepetitionCards empty_db = []" "quality ?a = 2" "studentId ?a = 1"
    "competenceCode ?a = ''CP.FR.L1.1''"
    by (simp_all add: empty_db_def example_attempt_def)
  from fresh_pair_card [OF h, of 1000] show ?thesis unfolding e by auto
qed

text \<open>
  Claim C9. A schedule step sets the easiness factor to
  \<open>EF + (0.1 - (5 - q) * (0.08 + (5 - q) * 0.02))\<close> with a floor of \<open>1.3\<close>, so the result is
  never below \<open>1.3\<close>, for every card and every quality. After any non-empty sequence of
  calls of \<^verbatim>\<open>updateMastery\<close> for one pair, whatever their qualities, the card stored for the
  pair has an easiness factor of at least \<open>1.3\<close>. The step is \<^verbatim>\<open>calculateNextReview\<close> as
  the specification gives it; the storing of its result is the code of \<^verbatim>\<open>MasteryService\<close>
  and \<^verbatim>\<open>ReviewQueueRepo\<close>.
\<close>

theorem easinessFactor_floor:
  fixes crd q now s calls sid code
  defines "sm \<equiv> calculateNextReview crd q now"
  shows "sm_easinessFactor sm
           = max 1.3 (rc_easinessFactor crd + (0.1 - (5 - q) * (0.08 + (5 - q) * 0.02)))
     \<and> 1.3 \<le> sm_easinessFactor sm
     \<and> (calls \<noteq> [] \<and> list_all (\<lambda>(b, t). studentId b = sid \<and> competenceCode b = code) calls
          \<longrightarrow> (\<exists>c. cardOf (updateMasteryAll calls s) sid code = Some c
                   \<and> 1.3 \<le> rc_easinessFactor c))"
proof -
  have ef: "sm_easinessFactor sm
           = max 1.3 (rc_easinessFactor crd + (0.1 - (5 - q) * (0.08 + (5 - q) * 0.02)))"
    unfolding sm_def by (rule calculateNextReview_EF)
  have ge: "1.3 \<le> sm_easinessFactor sm" unfolding ef by (rule max.cobounded1)
  have seq: "\<exists>c. cardOf (updateMasteryAll calls s) sid code = Some c \<and> 1.3 \<le> rc_easinessFactor c"
    if ne: "calls \<noteq> []"
      and pair: "list_all (\<lambda>(b, t). studentId b = sid \<and> competenceCode b = code) calls"
  proof -
    from ne obtain front b t where calls: "calls = front @ [(b, t)]"
      by (metis rev_exhaust surj_pair)
    with pair have b: "studentId b = sid" "competenceCode b = code" by simp_all
    from cardOf_updateMastery [of b t "updateMasteryAll front s"] b
    obtain c c0 where "cardOf (updateMasteryAll calls s) sid code = Some c"
      "rc_easinessFactor c = sm_easinessFactor (calculateNextReview c0 (quality b) t)"
      unfolding calls updateMasteryAll_snoc by auto
    moreover have "1.3 \<le> sm_easinessFactor (calculateNextReview c0 (quality b) t)"
      unfolding calculateNextReview_EF by (rule max.cobounded1)
    ultimately show ?thesis by auto
  qed
  from ef ge seq show ?thesis by blast
qed

theorem easinessFactor_floor_witness:
  "\<exists>c. cardOf (updateMasteryAll
            [(example_attempt False 0 0, 1000), (example_attempt False 0 0, 2000),
             (example_attempt False 0 0, 3000)] empty_db) 1 ''CP.FR.L1.1'' = Some c
      \<and> rc_easinessFactor c = 1.3"
proof -
  let ?a = "example_attempt False 0 0"
  let ?s1 = "snd (updateMastery ?a 1000 empty_db)"
  let ?s2 = "snd (updateMastery ?a 2000 ?s1)"
  let ?s3 = "snd (updateMastery ?a 3000 ?s2)"
  have ids: "studentId ?a = 1" "competenceCode ?a = ''CP.FR.L1.1''" "quality ?a = 0"
    by (simp_all add: example_attempt_def)
  have fresh: "cardOf empty_db 1 ''CP.FR.L1.1'' = None"
    by (simp add: cardOf_def cardRows_def empty_db_def)
  from cardOf_updateMastery [of ?a 1000 empty_db]
  obtain c1 where c1: "cardOf ?s1 1 ''CP.FR.L1.1'' = Some c1" and e1: "rc_easinessFactor c1 = 1.7"
    unfolding ids by (auto simp add: fresh createCard_fst calculateNextReview_EF)
  from cardOf_updateMastery [of ?a 2000 ?s1]
  obtain c2 where c2: "cardOf ?s2 1 ''CP.FR.L1.1'' = Some c2" and e2: "rc_easinessFactor c2 = 1.3"
    unfolding ids by (auto simp add: c1 e1 calculateNextReview_EF)
  from cardOf_updateMastery [of ?a 3000 ?s2]
  obtain c3 where c3: "cardOf ?s3 1 ''CP.FR.L1.1'' = Some c3" and e3: "rc_easinessFactor c3 = 1.3"
    unfolding ids by (auto simp add: c2 e2 calculateNextReview_EF)
  have "[(?a, 1000), (?a, 2000), (?a, 3000)] \<noteq> []
     \<and> list_all (\<lambda>(b, t). studentId b = 1 \<and> competenceCode b = ''CP.FR.L1.1'')
          [(?a, 1000), (?a, 2000), (?a, 3000)]"
    by (simp add: ids)
  with easinessFactor_floor [where calls = "[(?a, 1000), (?a, 2000), (?a, 3000)]" and sid = 1
      and code = "''CP.FR.L1.1''" and s = empty_db
      and crd = "fst (createCard 1 ''CP.FR.L1.1'' 1000 empty_db)" and q = 0 and now = 1000]
  obtain c where c: "cardOf ?s3 1 ''CP.FR.L1.1'' = Some c" and ge: "1.3 \<le> rc_easinessFactor c"
    by auto
  from c c3 e3 show ?thesis by simp
qed

text \<open>
  Claim C8, refuted as stated. The claim is that \<^verbatim>\<open>getRemediation\<close> returns actions
  exactly when the learner is blocked, one for each blocking prerequisite, a blocking
  prerequisite being one the learner has no progress row for or has not mastered. In the
  code the test is \<^verbatim>\<open>PrerequisiteService.isBlocked\<close>, three failures among the last five
  outcomes on the competence itself, and the actions are made from the prerequisite edges
  without any test of mastery. Learner \<open>1\<close> has failed \<^verbatim>\<open>CP.FR.L1.1\<close> three times and has
  mastered both of its prerequisites: no prerequisite is blocking, and an action is
  returned for each. Learner \<open>2\<close> has no outcome and has mastered neither prerequisite:
  both are blocking, and the result is \<^verbatim>\<open>null\<close>.
\<close>

theorem getRemediation_blocking_counterexample:
  "prereq_isBlocked mastered_db 1 ''CP.FR.L1.1''
   \<and> \<not> notMastered mastered_db 1 ''CP.FR.O1.1'' \<and> \<not> notMastered mastered_db 1 ''CP.FR.O1.2''
   \<and> br_blockingPrerequisites (isBlocked example_curriculum mastered_db 1 ''CP.FR.L1.1'') = []
   \<and> (\<exists>actions. prereq_getRemediation mastered_db 1 ''CP.FR.L1.1'' = Some actions
         \<and> map ra_prerequisiteCode actions = [''CP.FR.O1.1'', ''CP.FR.O1.2''])
   \<and> br_isBlocked (isBlocked example_curriculum mastered_db 2 ''CP.FR.L1.1'')
   \<and> br_blockingPrerequisites (isBlocked example_curriculum mastered_db 2 ''CP.FR.L1.1'')
        = [''CP.FR.O1.2'', ''CP.FR.O1.1'']
   \<and> prereq_getRemediation mastered_db 2 ''CP.FR.L1.1'' = None"
proof -
  have w1: "recentOutcomes mastered_db 1 ''CP.FR.L1.1'' 5
             = [prior_outcome 3 False, prior_outcome 2 False, prior_outcome 1 False]"
    and w2: "recentOutcomes mastered_db 2 ''CP.FR.L1.1'' 5 = []"
    by (simp_all add: recentOutcomes_def mastered_db_def remediation_db_def empty_db_def
        prior_outcome_def)
  have b1: "prereq_isBlocked mastered_db 1 ''CP.FR.L1.1''"
    by (simp add: prereq_isBlocked_def Let_def w1 prior_outcome_def)
  have b2: "\<not> prereq_isBlocked mastered_db 2 ''CP.FR.L1.1''"
    by (simp add: prereq_isBlocked_def Let_def w2)
  have m: "\<not> notMastered mastered_db 1 ''CP.FR.O1.1''" "\<not> notMastered mastered_db 1 ''CP.FR.O1.2''"
    "notMastered mastered_db 2 ''CP.FR.O1.1''" "notMastered mastered_db 2 ''CP.FR.O1.2''"
    by (simp_all add: notMastered_def progressRows_def mastered_db_def remediation_db_def
        empty_db_def mastered_row_def)
  have pre: "getPrerequisites example_curriculum mastered_db ''CP.FR.L1.1''
               = [''CP.FR.O1.2'', ''CP.FR.O1.1'']"
    by (simp add: getPrerequisites_def Let_def getCompetenceByCode_def example_curriculum_def
        mastered_db_def remediation_db_def empty_db_def unifiedCP_def cp_entry_def dedup_def)
  have i1: "br_blockingPrerequisites (isBlocked example_curriculum mastered_db 1 ''CP.FR.L1.1'') = []"
    by (simp add: isBlocked_filter pre m)
  have i2: "br_isBlocked (isBlocked example_curriculum mastered_db 2 ''CP.FR.L1.1'')"
    "br_blockingPrerequisites (isBlocked example_curriculum mastered_db 2 ''CP.FR.L1.1'')
        = [''CP.FR.O1.2'', ''CP.FR.O1.1'']"
    by (simp_all add: isBlocked_filter pre m)
  have edges: "prereq_getPrerequisites mastered_db ''CP.FR.L1.1''
      = [\<lparr>cp_competenceCode = ''CP.FR.L1.1'', cp_prerequisiteCode = ''CP.FR.O1.1'',
                cp_weight = 1, cp_description = ''''\<rparr>,
         \<lparr>cp_competenceCode = ''CP.FR.L1.1'', cp_prerequisiteCode = ''CP.FR.O1.2'',
                cp_weight = 0.5, cp_description = ''''\<rparr>]"
    by (simp add: prereq_getPrerequisites_def mastered_db_def remediation_db_def empty_db_def)
  have r1: "\<exists>actions. prereq_getRemediation mastered_db 1 ''CP.FR.L1.1'' = Some actions
         \<and> map ra_prerequisiteCode actions = [''CP.FR.O1.1'', ''CP.FR.O1.2'']"
    by (simp add: prereq_getRemediation_def Let_def b1 edges)
  have r2: "prereq_getRemediation mastered_db 2 ''CP.FR.L1.1'' = None"
    by (simp add: prereq_getRemediation_def Let_def b2)
  from b1 m(1,2) i1 r1 i2 r2 show ?thesis by simp
qed

text \<open>
  Claim C8, as the code has it. \<^verbatim>\<open>PrerequisiteService.getRemediation\<close> returns \<^verbatim>\<open>null\<close>
  exactly when \<^verbatim>\<open>PrerequisiteService.isBlocked\<close> is false, that is when fewer than three of
  the five most recent outcomes of the learner on the competence are incorrect. Otherwise
  the result has one action for each prerequisite edge the table
  \<^verbatim>\<open>competencePrerequisites\<close> holds for the competence, whether the learner has mastered the
  prerequisite or not, in the order of decreasing weight, each with the action
  \<^verbatim>\<open>Review prerequisite\<close>, the code of the prerequisite, its weight and a reason.
\<close>

theorem getRemediation_when_blocked:
  fixes s sid code
  defines "edges \<equiv> filter (\<lambda>r. cp_competenceCode r = code) (competencePrerequisites s)"
  defines "action \<equiv> (\<lambda>p. \<lparr>ra_action = ''Review prerequisite'',
                            ra_prerequisiteCode = cp_prerequisiteCode p, ra_weight = cp_weight p,
                            ra_reason = ''Student blocked on '' @ code @ '', needs ''
                                          @ cp_prerequisiteCode p\<rparr>)"
  shows "(prereq_isBlocked s sid code \<longleftrightarrow>
            3 \<le> length (filter (\<lambda>r. \<not> oc_isCorrect r) (recentOutcomes s sid code 5)))
     \<and> (prereq_getRemediation s sid code = None \<longleftrightarrow> \<not> prereq_isBlocked s sid code)
     \<and> (prereq_isBlocked s sid code \<longrightarrow>
          (\<exists>actions. prereq_getRemediation s sid code = Some actions
             \<and> actions = map action (sort_key (\<lambda>r. - cp_weight r) edges)
             \<and> length actions = length edges
             \<and> set (map ra_prerequisiteCode actions) = set (map cp_prerequisiteCode edges)))"
proof -
  have blocked: "prereq_isBlocked s sid code \<longleftrightarrow>
            3 \<le> length (filter (\<lambda>r. \<not> oc_isCorrect r) (recentOutcomes s sid code 5))"
    by (simp add: prereq_isBlocked_def Let_def)
  have none: "prereq_getRemediation s sid code = None \<longleftrightarrow> \<not> prereq_isBlocked s sid code"
    by (simp add: prereq_getRemediation_def Let_def)
  have some: "prereq_getRemediation s sid code
                = Some (map action (sort_key (\<lambda>r. - cp_weight r) edges))"
    if "prereq_isBlocked s sid code"
    using that
    by (simp add: prereq_getRemediation_def prereq_getPrerequisites_def Let_def edges_def action_def)
  have codes: "map ra_prerequisiteCode (map action xs) = map cp_prerequisiteCode xs" for xs
    by (simp add: action_def o_def)
  have "set (map ra_prerequisiteCode (map action (sort_key (\<lambda>r. - cp_weight r) edges)))
          = set (map cp_prerequisiteCode edges)"
    unfolding codes by simp
  with blocked none some show ?thesis by (simp add: image_image)
qed

theorem getRemediation_when_blocked_witness:
  "prereq_isBlocked remediation_db 1 ''CP.FR.L1.1''
   \<and> (\<exists>actions. prereq_getRemediation remediation_db 1 ''CP.FR.L1.1'' = Some actions
         \<and> map ra_prerequisiteCode actions = [''CP.FR.O1.1'', ''CP.FR.O1.2''])
   \<and> prereq_getRemediation remediation_db 2 ''CP.FR.L1.1'' = None"
proof -
  have w: "recentOutcomes remediation_db 1 ''CP.FR.L1.1'' 5
             = [prior_outcome 3 False, prior_outcome 2 False, prior_outcome 1 False]"
    "recentOutcomes remediation_db 2 ''CP.FR.L1.1'' 5 = []"
    by (simp_all add: recentOutcomes_def remediation_db_def empty_db_def prior_outcome_def)
  have e: "sort_key (\<lambda>r. - cp_weight r)
             (filter (\<lambda>r. cp_competenceCode r = ''CP.FR.L1.1'') (competencePrerequisites remediation_db))
           = [\<lparr>cp_competenceCode = ''CP.FR.L1.1'', cp_prerequisiteCode = ''CP.FR.O1.1'',
                cp_weight = 1, cp_description = ''''\<rparr>,
              \<lparr>cp_competenceCode = ''CP.FR.L1.1'', cp_prerequisiteCode = ''CP.FR.O1.2'',
                cp_weight = 0.5, cp_description = ''''\<rparr>]"
    by (simp add: remediation_db_def empty_db_def)
  from getRemediation_when_blocked [of remediation_db 1 "''CP.FR.L1.1''"]
    getRemediation_when_blocked [of remediation_db 2 "''CP.FR.L1.1''"]
  show ?thesis unfolding w e by (simp add: prior_outcome_def)
qed

text \<open>
  Claim C3, refuted as stated. The claim is that a malformed outcome (a quality outside
  \<open>[0, 5]\<close>, a negative \<open>hintsUsed\<close> or \<open>timeSpentSeconds\<close>) is rejected with a
  \<^verbatim>\<open>ValidationError\<close> before any write. Neither \<^verbatim>\<open>recordOutcome\<close> nor \<^verbatim>\<open>updateMastery\<close>
  checks these fields: recording a malformed attempt on the empty database writes an
  outcome row, an error pattern, a progress row and a review card.
\<close>

theorem recordOutcome_validation_counterexample:
  "spec_malformed bad_attempt
   \<and> exerciseOutcomes (snd (recordOutcome bad_attempt 1000 empty_db)) \<noteq> exerciseOutcomes empty_db
   \<and> errorPatterns (snd (recordOutcome bad_attempt 1000 empty_db)) \<noteq> errorPatterns empty_db
   \<and> studentProgress (snd (updateMastery bad_attempt 1000 empty_db)) \<noteq> studentProgress empty_db
   \<and> spacedRepetitionCards (snd (updateMastery bad_attempt 1000 empty_db))
        \<noteq> spacedRepetitionCards empty_db"
proof -
  have m: "spec_malformed bad_attempt" by (simp add: spec_malformed_def bad_attempt_def)
  have o: "exerciseOutcomes (snd (recordOutcome bad_attempt 1000 empty_db))
             \<noteq> exerciseOutcomes empty_db"
    by (simp add: recordOutcome_tables empty_db_def)
  have e: "errorPatterns (snd (recordOutcome bad_attempt 1000 empty_db)) \<noteq> errorPatterns empty_db"
    by (simp add: recordOutcome_def Let_def bad_attempt_def empty_db_def upsertErrorPattern_def)
  have p: "studentProgress (snd (updateMastery bad_attempt 1000 empty_db))
             \<noteq> studentProgress empty_db"
    by (simp add: updateMastery_progress upsertProgress_def Let_def progressRows_def empty_db_def)
  have "cardOf empty_db (studentId bad_attempt) (competenceCode bad_attempt) = None"
    by (simp add: cardOf_def cardRows_def empty_db_def)
  then have c: "spacedRepetitionCards (snd (updateMastery bad_attempt 1000 empty_db))
             \<noteq> spacedRepetitionCards empty_db"
    unfolding updateMastery_cards
    by (simp add: scheduleCard_fresh cardOf_def empty_db_def split: list.splits)
  from m o e p c show ?thesis by simp
qed

text \<open>
  Claim C3, as the code has it. For every attempt, malformed or not, \<^verbatim>\<open>recordOutcome\<close>
  appends exactly one outcome row that holds the fields as they were given, and upserts
  the counter of each of its tags: afterwards every tag of the attempt has a row for the
  learner and the competence, seen at \<open>now\<close>, and, the ids of the table being distinct,
  the counter of a tag has grown by the number of times the attempt carries the tag (a
  missing counter counts as \<open>0\<close>) while no other counter has changed. \<^verbatim>\<open>updateMastery\<close>
  then leaves a progress row and a review card for the pair. The services have no error
  value: they perform no validation.
\<close>

theorem recordOutcome_no_validation:
  fixes a now s
  defines "row \<equiv> fst (recordOutcome a now s)"
  defines "s' \<equiv> snd (recordOutcome a now s)"
  shows "exerciseOutcomes s' = exerciseOutcomes s @ [row]
     \<and> oc_studentId row = studentId a \<and> oc_competenceCode row = competenceCode a
     \<and> oc_quality row = quality a \<and> oc_hintsUsed row = hintsUsed a
     \<and> oc_timeSpentSec row = timeSpentSec a \<and> oc_isCorrect row = isCorrect a
     \<and> length (errorPatterns s) \<le> length (errorPatterns s')
     \<and> (\<forall>tag\<in>set (errorTags a). \<exists>r\<in>set (errorPatterns s').
           ep_studentId r = studentId a \<and> ep_competenceCode r = competenceCode a
           \<and> ep_tag r = tag \<and> ep_lastSeenAt r = now)
     \<and> (distinct (map ep_id (errorPatterns s)) \<longrightarrow>
           distinct (map ep_id (errorPatterns s'))
           \<and> (\<forall>sid code tag. occurrencesOf s' sid code tag =
                 occurrencesOf s sid code tag
                 + (if sid = studentId a \<and> code = competenceCode a
                    then int (count_list (errorTags a) tag) else 0)))
     \<and> exerciseOutcomes (snd (updateMastery a now s)) = exerciseOutcomes s @ [row]
     \<and> (\<exists>p. progressOf (snd (updateMastery a now s)) (studentId a) (competenceCode a) = Some p)
     \<and> (\<exists>c. cardOf (snd (updateMastery a now s)) (studentId a) (competenceCode a) = Some c)"
proof -
  have patterns: "errorPatterns s' =
      fold (upsertErrorPattern (studentId a) (competenceCode a) now) (errorTags a) (errorPatterns s)"
    by (simp add: s'_def recordOutcome_def Let_def)
  have r: "exerciseOutcomes s' = exerciseOutcomes s @ [row]"
    unfolding row_def s'_def by (rule recordOutcome_tables)
  have f: "oc_studentId row = studentId a" "oc_competenceCode row = competenceCode a"
    "oc_quality row = quality a" "oc_hintsUsed row = hintsUsed a"
    "oc_timeSpentSec row = timeSpentSec a" "oc_isCorrect row = isCorrect a"
    by (simp_all add: row_def recordOutcome_fst)
  have e: "length (errorPatterns s) \<le> length (errorPatterns s')"
    unfolding patterns by (rule fold_upsert_length)
  have seen: "\<forall>tag\<in>set (errorTags a). \<exists>r\<in>set (errorPatterns s').
           ep_studentId r = studentId a \<and> ep_competenceCode r = competenceCode a
           \<and> ep_tag r = tag \<and> ep_lastSeenAt r = now"
  proof
    fix tag assume "tag \<in> set (errorTags a)"
    from fold_upsert_seen [OF this, of "studentId a" "competenceCode a" now "errorPatterns s"]
    show "\<exists>r\<in>set (errorPatterns s').
           ep_studentId r = studentId a \<and> ep_competenceCode r = competenceCode a
           \<and> ep_tag r = tag \<and> ep_lastSeenAt r = now"
      unfolding patterns by (simp add: matchesPattern_def)
  qed
  have counters: "distinct (map ep_id (errorPatterns s')) \<and>
      (\<forall>sid code tag. occurrencesOf s' sid code tag =
                 occurrencesOf s sid code tag
                 + (if sid = studentId a \<and> code = competenceCode a
                    then int (count_list (errorTags a) tag) else 0))"
    if "distinct (map ep_id (errorPatterns s))"
    using fold_upsert_counter [OF that, of "studentId a" "competenceCode a" now "errorTags a"]
    unfolding occurrencesOf_def patterns by blast
  have u: "exerciseOutcomes (snd (updateMastery a now s)) = exerciseOutcomes s @ [row]"
    unfolding row_def by (rule updateMastery_outcomes)
  have p: "\<exists>p. progressOf (snd (updateMastery a now s)) (studentId a) (competenceCode a) = Some p"
    using progressOf_updateMastery [of a now s] by blast
  have c: "\<exists>c. cardOf (snd (updateMastery a now s)) (studentId a) (competenceCode a) = Some c"
    using cardOf_updateMastery [of a now s] by blast
  from r f e seen counters u p c show ?thesis by blast
qed

theorem recordOutcome_no_validation_witness:
  "(\<exists>row. exerciseOutcomes (snd (recordOutcome bad_attempt 1000 empty_db)) = [row]
      \<and> oc_quality row = 7 \<and> oc_hintsUsed row = - 1 \<and> oc_timeSpentSec row = - 5)
   \<and> occurrencesOf (snd (recordOutcome bad_attempt 1000 empty_db)) 1 ''CP.FR.L1.1'' ''carry'' = 1
   \<and> occurrencesOf (snd (recordOutcome bad_attempt 2000 (snd (recordOutcome bad_attempt 1000 empty_db))))
        1 ''CP.FR.L1.1'' ''carry'' = 2"
proof -
  let ?s1 = "snd (recordOutcome bad_attempt 1000 empty_db)"
  have d0: "distinct (map ep_id (errorPatterns empty_db))" by (simp add: empty_db_def)
  have o0: "occurrencesOf empty_db 1 ''CP.FR.L1.1'' ''carry'' = 0"
    by (simp add: occurrencesOf_def empty_db_def)
  have ids: "studentId bad_attempt = 1" "competenceCode bad_attempt = ''CP.FR.L1.1''"
    "errorTags bad_attempt = [''carry'']"
    by (simp_all add: bad_attempt_def)
  note first = recordOutcome_no_validation [of bad_attempt 1000 empty_db]
  have rows: "\<exists>row. exerciseOutcomes ?s1 = [row]
      \<and> oc_quality row = 7 \<and> oc_hintsUsed row = - 1 \<and> oc_timeSpentSec row = - 5"
    using first by (simp add: bad_attempt_def empty_db_def)
  from first d0 have d1: "distinct (map ep_id (errorPatterns ?s1))"
    and c1: "occurrencesOf ?s1 1 ''CP.FR.L1.1'' ''carry''
               = occurrencesOf empty_db 1 ''CP.FR.L1.1'' ''carry'' + int (count_list [''carry''] ''carry'')"
    unfolding ids by auto
  from recordOutcome_no_validation [of bad_attempt 2000 ?s1] d1
  have c2: "occurrencesOf (snd (recordOutcome bad_attempt 2000 ?s1)) 1 ''CP.FR.L1.1'' ''carry''
               = occurrencesOf ?s1 1 ''CP.FR.L1.1'' ''carry'' + int (count_list [''carry''] ''carry'')"
    unfolding ids by auto
  from rows c1 c2 o0 show ?thesis by simp
qed

text \<open>
  Claim C10. \<^verbatim>\<open>getCE1CompetenceByCode\<close> returns \<^verbatim>\<open>null\<close> for every code: its two scans are
  \<^verbatim>\<open>forEach\<close> calls, which drop what their callbacks return. Hence
  \<^verbatim>\<open>hasCE1MajorQualitativeLeap\<close> is false for every code;
  \<^verbatim>\<open>CompetenceFrameworkService.getCompetenceByCode\<close> never takes its CE1 branch (it answers
  from the CP table or the CE2 framework only) and never returns a competence of the level
  CE1; and \<^verbatim>\<open>getCompetencesWithLeaps\<close> is empty for the level CE1, whatever the CE1
  framework declares: the first entry of the CE1 data declares a \<^verbatim>\<open>saut_qualitatif\<close>
  and is not found.
\<close>

theorem ce1_lookup_always_null:
  fixes cur code
  defines "fw \<equiv> ce1Competences cur"
  shows "getCE1CompetenceByCode fw code = None
     \<and> \<not> hasCE1MajorQualitativeLeap fw code
     \<and> getCompetenceByCode cur code =
          (case map_of (cpCompetences cur) code of
             Some d \<Rightarrow> Some (unifiedCP code d)
           | None \<Rightarrow>
               (case ce2_getCompetenceByCode (ce2Competences cur) code of
                  Some c \<Rightarrow> Some (unifiedCE2 (getDomainFromCode code) (getSubDomainFromCode code) c)
                | None \<Rightarrow> None))
     \<and> \<not> (\<exists>u. getCompetenceByCode cur code = Some u \<and> u_niveau u = CE1)
     \<and> getCompetencesWithLeaps cur CE1 = []"
proof -
  have null: "getCE1CompetenceByCode fw code = None"
    by (rule getCE1CompetenceByCode_None)
  have leap: "\<not> hasCE1MajorQualitativeLeap fw c" for c
    by (simp add: hasCE1MajorQualitativeLeap_def getCE1CompetenceByCode_None)
  have by_code: "getCompetenceByCode cur code =
          (case map_of (cpCompetences cur) code of
             Some d \<Rightarrow> Some (unifiedCP code d)
           | None \<Rightarrow>
               (case ce2_getCompetenceByCode (ce2Competences cur) code of
                  Some c \<Rightarrow> Some (unifiedCE2 (getDomainFromCode code) (getSubDomainFromCode code) c)
                | None \<Rightarrow> None))"
    by (simp add: getCompetenceByCode_def getCE1CompetenceByCode_None split: option.splits)
  have never: "\<not> (\<exists>u. getCompetenceByCode cur code = Some u \<and> u_niveau u = CE1)"
    unfolding by_code by (auto simp add: unifiedCP_def unifiedCE2_def split: option.splits)
  have leaps: "getCompetencesWithLeaps cur CE1 = []"
    using leap by (simp add: getCompetencesWithLeaps_def Let_def fw_def)
  from null leap [of code] by_code never leaps show ?thesis by blast
qed

theorem ce1_lookup_always_null_witness:
  "getAllCE1CompetenceCodes ce1_excerpt = [''CE1.FR.O1.1'']
   \<and> getCE1CompetencesWithMajorLeaps ce1_excerpt = [ce1_fr_o1_1]
   \<and> getCE1CompetenceByCode ce1_excerpt ''CE1.FR.O1.1'' = None
   \<and> \<not> hasCE1MajorQualitativeLeap ce1_excerpt ''CE1.FR.O1.1''
   \<and> getCompetenceByCode example_curriculum ''CE1.FR.O1.1'' = None
   \<and> map u_code (getCompetencesByLevel example_curriculum CE1) = [''CE1.FR.O1.1'']
   \<and> getCompetencesWithLeaps example_curriculum CE1 = []"
proof -
  have codes: "getAllCE1CompetenceCodes ce1_excerpt = [''CE1.FR.O1.1'']"
    by (simp add: getAllCE1CompetenceCodes_def ce1_excerpt_def)
  have data: "getCE1CompetencesWithMajorLeaps ce1_excerpt = [ce1_fr_o1_1]"
    by (simp add: getCE1CompetencesWithMajorLeaps_def ce1_excerpt_def truthy_def ce1_fr_o1_1_def)
  have level: "map u_code (getCompetencesByLevel example_curriculum CE1) = [''CE1.FR.O1.1'']"
    by (simp add: getCompetencesByLevel_def example_curriculum_def ce1_excerpt_def unifiedCE1_def
        ce1_fr_o1_1_def)
  have cp: "map_of (cpCompetences example_curriculum) ''CE1.FR.O1.1'' = None"
    by (simp add: example_curriculum_def)
  have ce2: "ce2_getCompetenceByCode (ce2Competences example_curriculum) ''CE1.FR.O1.1'' = None"
    by (simp add: example_curriculum_def ce2_empty_def ce2_getCompetenceByCode_def spread_def)
  have fw: "ce1Competences example_curriculum = ce1_excerpt"
    by (simp add: example_curriculum_def)
  from ce1_lookup_always_null [of example_curriculum "''CE1.FR.O1.1''"]
  show ?thesis unfolding fw cp ce2 using codes data level by simp
qed

text \<open>
  Claim C5, where the code departs from it. The claim counts the prerequisites the
  curriculum declares for the skill. The competence \<^verbatim>\<open>CE1.FR.O1.1\<close> declares the
  prerequisites \<^verbatim>\<open>CP.FR.O1.1\<close> and \<^verbatim>\<open>CP.FR.O1.2\<close>; a learner without any progress row has
  mastered neither; yet \<^verbatim>\<open>getPrerequisites\<close> returns no prerequisite for the code (the
  lookup of a CE1 code always fails, see C10), and \<^verbatim>\<open>isBlocked\<close> answers that the learner
  is not blocked, with empty lists. For the codes of the CP table and of the CE2 framework
  the declared prerequisites are found (\<open>getPrerequisites_cp\<close>, \<open>getPrerequisites_ce2\<close>),
  and \<^verbatim>\<open>isBlocked\<close> is as the claim says on the prerequisites that are found
  (\<open>isBlocked_characterisation\<close>).
\<close>

theorem isBlocked_ce1_prerequisites_dropped:
  "map_of (concat (map snd (ce1_francais (ce1Competences example_curriculum)))) ''CE1.FR.O1.1''
     = Some ce1_fr_o1_1
   \<and> ce1_prerequis_cp ce1_fr_o1_1 = [''CP.FR.O1.1'', ''CP.FR.O1.2'']
   \<and> notMastered empty_db 1 ''CP.FR.O1.1'' \<and> notMastered empty_db 1 ''CP.FR.O1.2''
   \<and> getPrerequisites example_curriculum empty_db ''CE1.FR.O1.1'' = []
   \<and> isBlocked example_curriculum empty_db 1 ''CE1.FR.O1.1''
        = \<lparr>br_isBlocked = False, br_blockingPrerequisites = [], br_missingPrerequisites = []\<rparr>"
proof -
  have entry: "map_of (concat (map snd (ce1_francais (ce1Competences example_curriculum))))
      ''CE1.FR.O1.1'' = Some ce1_fr_o1_1"
    by (simp add: example_curriculum_def ce1_excerpt_def)
  have declared: "ce1_prerequis_cp ce1_fr_o1_1 = [''CP.FR.O1.1'', ''CP.FR.O1.2'']"
    by (simp add: ce1_fr_o1_1_def)
  have open_prereqs: "notMastered empty_db 1 ''CP.FR.O1.1''" "notMastered empty_db 1 ''CP.FR.O1.2''"
    by (simp_all add: notMastered_def progressRows_def empty_db_def)
  have cp: "map_of (cpCompetences example_curriculum) ''CE1.FR.O1.1'' = None"
    by (simp add: example_curriculum_def)
  have ce2: "ce2_getCompetenceByCode (ce2Competences example_curriculum) ''CE1.FR.O1.1'' = None"
    by (simp add: example_curriculum_def ce2_empty_def ce2_getCompetenceByCode_def spread_def)
  have resolved: "getCompetenceByCode example_curriculum ''CE1.FR.O1.1'' = None"
    by (simp add: getCompetenceByCode_def getCE1CompetenceByCode_None cp ce2 split: option.splits)
  have prereqs: "getPrerequisites example_curriculum empty_db ''CE1.FR.O1.1'' = []"
    by (simp add: getPrerequisites_def Let_def resolved empty_db_def dedup_def)
  have "isBlocked example_curriculum empty_db 1 ''CE1.FR.O1.1''
        = \<lparr>br_isBlocked = False, br_blockingPrerequisites = [], br_missingPrerequisites = []\<rparr>"
    by (simp add: isBlocked_filter prereqs)
  with entry declared open_prereqs prereqs show ?thesis by simp
qed

text \<open>
  Claim C6, where the code departs from it. The claim gives a competence without a
  progress row the entry of priority \<open>low\<close> and type \<open>prerequisite\<close> when the learner is
  blocked on it. The level CE1 holds the competence \<^verbatim>\<open>CE1.FR.O1.1\<close>, which declares the
  prerequisites \<^verbatim>\<open>CP.FR.O1.1\<close> and \<^verbatim>\<open>CP.FR.O1.2\<close>; a learner without any progress row has
  mastered neither; yet \<^verbatim>\<open>getRecommendations\<close> returns the competence with the priority
  \<open>medium\<close> and the type \<open>new\<close>, because \<^verbatim>\<open>isBlocked\<close> never sees the prerequisites a CE1
  competence declares (see C5 and C10). On the prerequisites \<^verbatim>\<open>isBlocked\<close> does find, the
  list is as the claim says (\<open>getRecommendations_entries\<close>).
\<close>

theorem getRecommendations_ce1_not_blocked:
  "map u_code (getCompetencesByLevel example_curriculum CE1) = [''CE1.FR.O1.1'']
   \<and> map_of (concat (map snd (ce1_francais (ce1Competences example_curriculum)))) ''CE1.FR.O1.1''
        = Some ce1_fr_o1_1
   \<and> ce1_prerequis_cp ce1_fr_o1_1 = [''CP.FR.O1.1'', ''CP.FR.O1.2'']
   \<and> notMastered empty_db 1 ''CP.FR.O1.1'' \<and> notMastered empty_db 1 ''CP.FR.O1.2''
   \<and> getRecommendations example_curriculum empty_db 1 CE1
        = [\<lparr>r_priority = medium, r_competenceCode = ''CE1.FR.O1.1'',
            r_reason = ''Nouvelle comp'' @ [CHR 0xC3, CHR 0xA9] @ ''tence disponible'',
            r_type = new\<rparr>]"
proof -
  have level: "getCompetencesByLevel example_curriculum CE1
                 = [unifiedCE1 ''francais'' ''oral'' ce1_fr_o1_1]"
    by (simp add: getCompetencesByLevel_def example_curriculum_def ce1_excerpt_def)
  have code: "u_code (unifiedCE1 ''francais'' ''oral'' ce1_fr_o1_1) = ''CE1.FR.O1.1''"
    by (simp add: unifiedCE1_def ce1_fr_o1_1_def)
  have entry: "map_of (concat (map snd (ce1_francais (ce1Competences example_curriculum))))
      ''CE1.FR.O1.1'' = Some ce1_fr_o1_1"
    by (simp add: example_curriculum_def ce1_excerpt_def)
  have declared: "ce1_prerequis_cp ce1_fr_o1_1 = [''CP.FR.O1.1'', ''CP.FR.O1.2'']"
    by (simp add: ce1_fr_o1_1_def)
  have open_prereqs: "notMastered empty_db 1 ''CP.FR.O1.1''" "notMastered empty_db 1 ''CP.FR.O1.2''"
    by (simp_all add: notMastered_def progressRows_def empty_db_def)
  have cp: "map_of (cpCompetences example_curriculum) ''CE1.FR.O1.1'' = None"
    by (simp add: example_curriculum_def)
  have ce2: "ce2_getCompetenceByCode (ce2Competences example_curriculum) ''CE1.FR.O1.1'' = None"
    by (simp add: example_curriculum_def ce2_empty_def ce2_getCompetenceByCode_def spread_def)
  have prereqs: "getPrerequisites example_curriculum empty_db ''CE1.FR.O1.1'' = []"
    by (simp add: getPrerequisites_ce1 [OF cp ce2] empty_db_def dedup_def)
  have blocked: "isBlocked example_curriculum empty_db 1 ''CE1.FR.O1.1''
        = \<lparr>br_isBlocked = False, br_blockingPrerequisites = [], br_missingPrerequisites = []\<rparr>"
    by (simp add: isBlocked_filter prereqs)
  have rows: "studentProgress empty_db = []" by (simp add: empty_db_def)
  have leaps: "map ce1_code (getCE1CompetencesWithMajorLeaps (ce1Competences example_curriculum))
                 = [''CE1.FR.O1.1'']"
    by (simp add: getCE1CompetencesWithMajorLeaps_def example_curriculum_def ce1_excerpt_def
        truthy_def ce1_fr_o1_1_def)
  have "getRecommendations example_curriculum empty_db 1 CE1
        = [\<lparr>r_priority = medium, r_competenceCode = ''CE1.FR.O1.1'',
            r_reason = ''Nouvelle comp'' @ [CHR 0xC3, CHR 0xA9] @ ''tence disponible'',
            r_type = new\<rparr>]"
    by (simp add: getRecommendations_def Let_def level code rows progressMap_def blocked leaps
        reason_new_def)
  with level code entry declared open_prereqs show ?thesis by simp
qed

end
